theory Spec2Isabelle
  imports Complex_Main "HOL-Library.Char_ord" "HOL-Library.List_Lexorder"
begin

section \<open>The analytics engine of the food-delivery dashboard\<close>

text \<open>
  A shallow embedding of \<^verbatim>\<open>analyticsService\<close> (analytics.service.ts): the entry point
  \<^verbatim>\<open>analyze\<close>, the fourteen facet analyzers, the insight generator and the statistics
  helpers, together with the parts of the JavaScript platform and of lodash they call.

  Conventions of the embedding.
  \<^item> The monetary fields and quantities of an input order are finite numbers, read with
    exact arithmetic: they are rationals. Rounding of IEEE doubles is not modelled.
  \<^item> A computed JavaScript number is a value of type \<open>number\<close>: a rational, \<open>NaN\<close>, or one
    of the two infinities, with the arithmetic and comparisons of the language on them
    (zero is unsigned: a division by zero is a division by \<open>+0\<close>, the only zero divisors
    of the source being lengths and counters).
  \<^item> A counter or an array length is a natural number.
  \<^item> A string is a list of 8-bit characters read as code units below 256.
  \<^item> A plain object used as a dictionary is an association list in the language's own
    key order: array-index keys in ascending order first, then the other keys in the order
    of their creation.
  \<^item> \<^verbatim>\<open>new Date(s)\<close> is the platform's: the parser and the local time zone are the two
    fields of a \<open>platform\<close> record that every analyzer reading a date takes. A time value
    is an integer number of milliseconds since the epoch, \<open>None\<close> for an Invalid Date.
  \<^item> An exception is the left summand of a sum type.
\<close>

subsection \<open>Numbers\<close>

datatype number = NaN | NegInf | Fin rat | PosInf

fun nplus :: "number \<Rightarrow> number \<Rightarrow> number" where
  "nplus (Fin a) (Fin b) = Fin (a + b)"
| "nplus NaN y = NaN"
| "nplus x NaN = NaN"
| "nplus PosInf NegInf = NaN"
| "nplus NegInf PosInf = NaN"
| "nplus PosInf y = PosInf"
| "nplus x PosInf = PosInf"
| "nplus NegInf y = NegInf"
| "nplus x NegInf = NegInf"

fun nneg :: "number \<Rightarrow> number" where
  "nneg NaN = NaN"
| "nneg NegInf = PosInf"
| "nneg (Fin a) = Fin (- a)"
| "nneg PosInf = NegInf"

definition nminus :: "number \<Rightarrow> number \<Rightarrow> number" where
  "nminus x y = nplus x (nneg y)"

fun ntimes :: "number \<Rightarrow> number \<Rightarrow> number" where
  "ntimes (Fin a) (Fin b) = Fin (a * b)"
| "ntimes NaN y = NaN"
| "ntimes x NaN = NaN"
| "ntimes (Fin a) PosInf = (if a = 0 then NaN else if 0 < a then PosInf else NegInf)"
| "ntimes (Fin a) NegInf = (if a = 0 then NaN else if 0 < a then NegInf else PosInf)"
| "ntimes PosInf (Fin b) = (if b = 0 then NaN else if 0 < b then PosInf else NegInf)"
| "ntimes NegInf (Fin b) = (if b = 0 then NaN else if 0 < b then NegInf else PosInf)"
| "ntimes PosInf PosInf = PosInf"
| "ntimes PosInf NegInf = NegInf"
| "ntimes NegInf PosInf = NegInf"
| "ntimes NegInf NegInf = PosInf"

fun ndiv :: "number \<Rightarrow> number \<Rightarrow> number" where
  "ndiv (Fin a) (Fin b) =
     (if b = 0 then (if a = 0 then NaN else if 0 < a then PosInf else NegInf)
      else Fin (a / b))"
| "ndiv NaN y = NaN"
| "ndiv x NaN = NaN"
| "ndiv (Fin a) PosInf = Fin 0"
| "ndiv (Fin a) NegInf = Fin 0"
| "ndiv PosInf (Fin b) = (if 0 \<le> b then PosInf else NegInf)"
| "ndiv NegInf (Fin b) = (if 0 \<le> b then NegInf else PosInf)"
| "ndiv PosInf y = NaN"
| "ndiv NegInf y = NaN"

text \<open>\<^verbatim>\<open>x < y\<close>; every comparison with \<open>NaN\<close> is false.\<close>

fun nlt :: "number \<Rightarrow> number \<Rightarrow> bool" where
  "nlt (Fin a) (Fin b) = (a < b)"
| "nlt NaN y = False"
| "nlt x NaN = False"
| "nlt NegInf y = (y \<noteq> NegInf)"
| "nlt x PosInf = (x \<noteq> PosInf)"
| "nlt PosInf y = False"
| "nlt x NegInf = False"

definition ngt :: "number \<Rightarrow> number \<Rightarrow> bool" where
  "ngt x y = nlt y x"

fun nle :: "number \<Rightarrow> number \<Rightarrow> bool" where
  "nle (Fin a) (Fin b) = (a \<le> b)"
| "nle NaN y = False"
| "nle x NaN = False"
| "nle NegInf y = True"
| "nle x PosInf = True"
| "nle PosInf y = False"
| "nle x NegInf = False"

definition nge :: "number \<Rightarrow> number \<Rightarrow> bool" where
  "nge x y = nle y x"

text \<open>\<^verbatim>\<open>x !== y\<close> on numbers: \<open>NaN\<close> differs from everything, itself included.\<close>

definition nne :: "number \<Rightarrow> number \<Rightarrow> bool" where
  "nne x y = (x = NaN \<or> y = NaN \<or> x \<noteq> y)"

text \<open>A number in a boolean position (\<^verbatim>\<open>x || 0\<close>): zero and \<open>NaN\<close> are falsy.\<close>

definition truthy :: "number \<Rightarrow> bool" where
  "truthy x = (x \<noteq> NaN \<and> x \<noteq> Fin 0)"

definition Math_max :: "number \<Rightarrow> number \<Rightarrow> number" where
  "Math_max x y = (if x = NaN \<or> y = NaN then NaN else if nlt x y then y else x)"

definition Math_min :: "number \<Rightarrow> number \<Rightarrow> number" where
  "Math_min x y = (if x = NaN \<or> y = NaN then NaN else if nlt y x then y else x)"

text \<open>\<^verbatim>\<open>Math.max(...xs)\<close> and \<^verbatim>\<open>Math.min(...xs)\<close>: \<open>-Infinity\<close> and \<open>Infinity\<close> on no argument.\<close>

definition Math_max_list :: "number list \<Rightarrow> number" where
  "Math_max_list xs = fold (\<lambda>x acc. Math_max acc x) xs NegInf"

definition Math_min_list :: "number list \<Rightarrow> number" where
  "Math_min_list xs = fold (\<lambda>x acc. Math_min acc x) xs PosInf"

fun Math_pow2 :: "number \<Rightarrow> number" where
  "Math_pow2 (Fin a) = Fin (a * a)"
| "Math_pow2 NaN = NaN"
| "Math_pow2 x = PosInf"

definition of_count :: "nat \<Rightarrow> number" where
  "of_count n = Fin (of_nat n)"

text \<open>A number read off a date: \<open>NaN\<close> for an Invalid Date.\<close>

definition of_date_field :: "int option \<Rightarrow> number" where
  "of_date_field x = (case x of None \<Rightarrow> NaN | Some i \<Rightarrow> Fin (of_int i))"

subsection \<open>Strings\<close>

definition toLowerCase_char :: "char \<Rightarrow> char" where
  "toLowerCase_char c =
     (let n = (of_char c :: nat)
      in if (65 \<le> n \<and> n \<le> 90) \<or> (192 \<le> n \<and> n \<le> 222 \<and> n \<noteq> 215)
         then char_of (n + 32) else c)"

definition toLowerCase :: "string \<Rightarrow> string" where
  "toLowerCase s = map toLowerCase_char s"

text \<open>White space and line terminators below code unit 256.\<close>

definition is_white :: "char \<Rightarrow> bool" where
  "is_white c = ((of_char c :: nat) \<in> {9, 10, 11, 12, 13, 32, 160})"

definition trim :: "string \<Rightarrow> string" where
  "trim s = rev (dropWhile is_white (rev (dropWhile is_white s)))"

fun is_prefix :: "string \<Rightarrow> string \<Rightarrow> bool" where
  "is_prefix [] s = True"
| "is_prefix (k # ks) [] = False"
| "is_prefix (k # ks) (c # cs) = (k = c \<and> is_prefix ks cs)"

text \<open>\<^verbatim>\<open>s.includes(k)\<close>\<close>

fun str_includes :: "string \<Rightarrow> string \<Rightarrow> bool" where
  "str_includes [] k = (k = [])"
| "str_includes (c # cs) k = (is_prefix k (c # cs) \<or> str_includes cs k)"

text \<open>\<^verbatim>\<open>keywords.some(k => item.includes(k))\<close>\<close>

definition includes_some :: "string list \<Rightarrow> string \<Rightarrow> bool" where
  "includes_some keywords item = list_ex (\<lambda>k. str_includes item k) keywords"

fun join :: "string \<Rightarrow> string list \<Rightarrow> string" where
  "join sep [] = []"
| "join sep [x] = x"
| "join sep (x # y # ys) = x @ sep @ join sep (y # ys)"

definition padStart :: "nat \<Rightarrow> char \<Rightarrow> string \<Rightarrow> string" where
  "padStart n c s = replicate (n - length s) c @ s"

fun digits :: "nat \<Rightarrow> string" where
  "digits n = (if n < 10 then [char_of (48 + n)]
               else digits (n div 10) @ [char_of (48 + n mod 10)])"

declare digits.simps [simp del]

text \<open>\<^verbatim>\<open>String(x)\<close> for an integral number, and for the \<open>NaN\<close> of an Invalid Date.\<close>

definition String_int :: "int \<Rightarrow> string" where
  "String_int i = (if i < 0 then CHR ''-'' # digits (nat (- i)) else digits (nat i))"

definition String_date_field :: "int option \<Rightarrow> string" where
  "String_date_field x = (case x of None \<Rightarrow> ''NaN'' | Some i \<Rightarrow> String_int i)"

definition is_digit :: "char \<Rightarrow> bool" where
  "is_digit c = (48 \<le> (of_char c :: nat) \<and> (of_char c :: nat) \<le> 57)"

definition int_of_digits :: "string \<Rightarrow> int" where
  "int_of_digits s = fold (\<lambda>c acc. 10 * acc + ((of_char c :: int) - 48)) s 0"

text \<open>
  \<^verbatim>\<open>parseInt(s)\<close> with no radix, on the strings the engine gives it (the decimal keys
  of \<^verbatim>\<open>hourly_patterns\<close>, or \<^verbatim>\<open>"NaN"\<close>): leading white space, an optional sign, the
  longest run of decimal digits; \<open>NaN\<close> when there is no digit.
\<close>

definition parseInt :: "string \<Rightarrow> number" where
  "parseInt s =
     (let t = dropWhile is_white s;
          neg = (t \<noteq> [] \<and> hd t = CHR ''-'');
          u = (if t \<noteq> [] \<and> (hd t = CHR ''-'' \<or> hd t = CHR ''+'') then tl t else t);
          ds = takeWhile is_digit u
      in if ds = [] then NaN
         else if neg then Fin (- of_int (int_of_digits ds)) else Fin (of_int (int_of_digits ds)))"

subsection \<open>Plain objects as ordered dictionaries\<close>

type_synonym 'v obj = "(string \<times> 'v) list"

text \<open>
  An array index is the canonical decimal form of an integer below \<open>2^32 - 1\<close>. Such keys
  are enumerated first, in ascending order, whatever the order of their creation. Every
  key is an own property: the prototype chain, and the special treatment of the key
  \<^verbatim>\<open>__proto__\<close> by a plain assignment, are not modelled.
\<close>

definition array_index :: "string \<Rightarrow> int option" where
  "array_index s =
     (if s \<noteq> [] \<and> list_all is_digit s \<and> (length s = 1 \<or> hd s \<noteq> CHR ''0'')
         \<and> int_of_digits s < 4294967295
      then Some (int_of_digits s) else None)"

definition obj_get :: "'v obj \<Rightarrow> string \<Rightarrow> 'v option" where
  "obj_get m k = map_of m k"

fun replace_value :: "string \<Rightarrow> 'v \<Rightarrow> 'v obj \<Rightarrow> 'v obj" where
  "replace_value k v [] = []"
| "replace_value k v ((k', v') # m) =
     (if k' = k then (k', v) # m else (k', v') # replace_value k v m)"

fun insert_index :: "int \<Rightarrow> string \<Rightarrow> 'v \<Rightarrow> 'v obj \<Rightarrow> 'v obj" where
  "insert_index n k v [] = [(k, v)]"
| "insert_index n k v ((k', v') # m) =
     (case array_index k' of
        Some n' \<Rightarrow> if n' < n then (k', v') # insert_index n k v m else (k, v) # (k', v') # m
      | None \<Rightarrow> (k, v) # (k', v') # m)"

text \<open>\<^verbatim>\<open>m[k] = v\<close>\<close>

definition obj_set :: "'v obj \<Rightarrow> string \<Rightarrow> 'v \<Rightarrow> 'v obj" where
  "obj_set m k v =
     (if map_of m k \<noteq> None then replace_value k v m
      else case array_index k of
             Some n \<Rightarrow> insert_index n k v m
           | None \<Rightarrow> m @ [(k, v)])"

definition keys :: "'v obj \<Rightarrow> string list" where
  "keys m = map fst m"

definition values_of :: "'v obj \<Rightarrow> 'v list" where
  "values_of m = map snd m"

text \<open>
  \<^verbatim>\<open>entries.reduce((acc, [k, v]) => ({ ...acc, [k]: v }), {})\<close>: the entries are written
  one by one into a fresh object.
\<close>

definition fromEntries :: "(string \<times> 'v) list \<Rightarrow> 'v obj" where
  "fromEntries es = fold (\<lambda>(k, v) acc. obj_set acc k v) es []"

subsection \<open>lodash\<close>

text \<open>\<^verbatim>\<open>_.countBy(xs, f)\<close> on the list of the keys \<open>f x\<close>.\<close>

definition countBy :: "string list \<Rightarrow> nat obj" where
  "countBy ks =
     fold (\<lambda>k acc. obj_set acc k (case obj_get acc k of Some c \<Rightarrow> c + 1 | None \<Rightarrow> 1)) ks []"

definition groupBy :: "('a \<Rightarrow> string) \<Rightarrow> 'a list \<Rightarrow> ('a list) obj" where
  "groupBy f xs =
     fold (\<lambda>x acc. obj_set acc (f x) (case obj_get acc (f x) of Some g \<Rightarrow> g @ [x] | None \<Rightarrow> [x]))
       xs []"

definition sum_numbers :: "number list \<Rightarrow> number" where
  "sum_numbers xs = fold (\<lambda>x acc. nplus acc x) xs (Fin 0)"

definition mean_numbers :: "number list \<Rightarrow> number" where
  "mean_numbers xs = (if xs = [] then NaN else ndiv (sum_numbers xs) (of_count (length xs)))"

definition sumBy :: "('a \<Rightarrow> rat) \<Rightarrow> 'a list \<Rightarrow> number" where
  "sumBy f xs = sum_numbers (map (\<lambda>x. Fin (f x)) xs)"

definition meanBy :: "('a \<Rightarrow> rat) \<Rightarrow> 'a list \<Rightarrow> number" where
  "meanBy f xs = mean_numbers (map (\<lambda>x. Fin (f x)) xs)"

subsection \<open>Dates\<close>

record platform =
  Date_parse :: "string \<Rightarrow> int option"
  LocalTZA :: "int \<Rightarrow> int"

definition msPerDay :: int where
  "msPerDay = 86400000"

definition Day :: "int \<Rightarrow> int" where
  "Day t = t div msPerDay"

definition WeekDay :: "int \<Rightarrow> int" where
  "WeekDay t = (Day t + 4) mod 7"

definition HourFromTime :: "int \<Rightarrow> int" where
  "HourFromTime t = (t div 3600000) mod 24"

definition MinFromTime :: "int \<Rightarrow> int" where
  "MinFromTime t = (t div 60000) mod 60"

definition SecFromTime :: "int \<Rightarrow> int" where
  "SecFromTime t = (t div 1000) mod 60"

definition msFromTime :: "int \<Rightarrow> int" where
  "msFromTime t = t mod 1000"

text \<open>The proleptic Gregorian date (year, month from 1, day from 1) of a day number.\<close>

definition civil_from_days :: "int \<Rightarrow> int \<times> int \<times> int" where
  "civil_from_days z0 =
     (let z = z0 + 719468;
          era = z div 146097;
          doe = z - era * 146097;
          yoe = (doe - doe div 1460 + doe div 36524 - doe div 146096) div 365;
          y = yoe + era * 400;
          doy = doe - (365 * yoe + yoe div 4 - yoe div 100);
          mp = (5 * doy + 2) div 153;
          d = doy - (153 * mp + 2) div 5 + 1;
          m = (if mp < 10 then mp + 3 else mp - 9)
      in (if m \<le> 2 then y + 1 else y, m, d))"

definition YearFromTime :: "int \<Rightarrow> int" where
  "YearFromTime t = fst (civil_from_days (Day t))"

text \<open>Months count from 0, as \<^verbatim>\<open>getMonth\<close> does.\<close>

definition MonthFromTime :: "int \<Rightarrow> int" where
  "MonthFromTime t = fst (snd (civil_from_days (Day t))) - 1"

definition DateFromTime :: "int \<Rightarrow> int" where
  "DateFromTime t = snd (snd (civil_from_days (Day t)))"

definition getTime :: "platform \<Rightarrow> string \<Rightarrow> int option" where
  "getTime p s = Date_parse p s"

definition localTime :: "platform \<Rightarrow> string \<Rightarrow> int option" where
  "localTime p s = map_option (\<lambda>t. t + LocalTZA p t) (Date_parse p s)"

definition getFullYear :: "platform \<Rightarrow> string \<Rightarrow> int option" where
  "getFullYear p s = map_option YearFromTime (localTime p s)"

definition getMonth :: "platform \<Rightarrow> string \<Rightarrow> int option" where
  "getMonth p s = map_option MonthFromTime (localTime p s)"

definition getHours :: "platform \<Rightarrow> string \<Rightarrow> int option" where
  "getHours p s = map_option HourFromTime (localTime p s)"

definition getDay :: "platform \<Rightarrow> string \<Rightarrow> int option" where
  "getDay p s = map_option WeekDay (localTime p s)"

definition dayNames :: "string list" where
  "dayNames = [''Sunday'', ''Monday'', ''Tuesday'', ''Wednesday'', ''Thursday'', ''Friday'',
               ''Saturday'']"

text \<open>\<^verbatim>\<open>d.toLocaleDateString('en-US', { weekday: 'long' })\<close>\<close>

definition toLocaleDateString_weekday :: "platform \<Rightarrow> string \<Rightarrow> string" where
  "toLocaleDateString_weekday p s =
     (case getDay p s of None \<Rightarrow> ''Invalid Date'' | Some d \<Rightarrow> dayNames ! nat d)"

datatype error = RangeError string

definition pad_digits :: "nat \<Rightarrow> int \<Rightarrow> string" where
  "pad_digits n i = padStart n (CHR ''0'') (digits (nat i))"

text \<open>
  \<^verbatim>\<open>d.toISOString()\<close>: the UTC fields, a four-digit year from 0 to 9999 and a signed
  six-digit year otherwise; a RangeError on an Invalid Date.
\<close>

definition toISOString :: "platform \<Rightarrow> string \<Rightarrow> error + string" where
  "toISOString p s =
     (case Date_parse p s of
        None \<Rightarrow> Inl (RangeError ''Invalid time value'')
      | Some t \<Rightarrow>
          (let y = YearFromTime t;
               year = (if 0 \<le> y \<and> y \<le> 9999 then pad_digits 4 y
                       else (if y < 0 then ''-'' else ''+'') @ pad_digits 6 (abs y))
           in Inr (year @ ''-'' @ pad_digits 2 (MonthFromTime t + 1) @ ''-''
                   @ pad_digits 2 (DateFromTime t) @ ''T'' @ pad_digits 2 (HourFromTime t)
                   @ '':'' @ pad_digits 2 (MinFromTime t) @ '':'' @ pad_digits 2 (SecFromTime t)
                   @ ''.'' @ pad_digits 3 (msFromTime t) @ ''Z'')))"

text \<open>\<^verbatim>\<open>new Date(s).toISOString().slice(0, 7)\<close>\<close>

definition isoMonth :: "platform \<Rightarrow> string \<Rightarrow> error + string" where
  "isoMonth p s = (case toISOString p s of Inl e \<Rightarrow> Inl e | Inr str \<Rightarrow> Inr (take 7 str))"

text \<open>\<^verbatim>\<open>xs.map(f)\<close> for an \<open>f\<close> that may throw: the first exception ends the traversal.\<close>

fun traverse :: "('a \<Rightarrow> error + 'b) \<Rightarrow> 'a list \<Rightarrow> error + 'b list" where
  "traverse f [] = Inr []"
| "traverse f (x # xs) =
     (case f x of
        Inl e \<Rightarrow> Inl e
      | Inr y \<Rightarrow> (case traverse f xs of Inl e \<Rightarrow> Inl e | Inr ys \<Rightarrow> Inr (y # ys)))"

text \<open>
  A reference parser for the examples: the two forms \<^verbatim>\<open>YYYY-MM-DD\<close> and
  \<^verbatim>\<open>YYYY-MM-DDTHH:mm:ssZ\<close> of the language's date-time format, both UTC; every other
  string is an Invalid Date.
\<close>

definition days_from_civil :: "int \<Rightarrow> int \<Rightarrow> int \<Rightarrow> int" where
  "days_from_civil y0 m d =
     (let y = (if m \<le> 2 then y0 - 1 else y0);
          era = y div 400;
          yoe = y - era * 400;
          doy = (153 * (if 2 < m then m - 3 else m + 9) + 2) div 5 + d - 1;
          doe = yoe * 365 + yoe div 4 - yoe div 100 + doy
      in era * 146097 + doe - 719468)"

definition num_field :: "string \<Rightarrow> int option" where
  "num_field s = (if s \<noteq> [] \<and> list_all is_digit s then Some (int_of_digits s) else None)"

definition iso_date :: "string \<Rightarrow> int option" where
  "iso_date s =
     (if length s = 10 \<and> s ! 4 = CHR ''-'' \<and> s ! 7 = CHR ''-'' then
        (case (num_field (take 4 s), num_field (take 2 (drop 5 s)), num_field (drop 8 s)) of
           (Some y, Some m, Some d) \<Rightarrow>
             if 1 \<le> m \<and> m \<le> 12 \<and> 1 \<le> d \<and> civil_from_days (days_from_civil y m d) = (y, m, d)
             then Some (days_from_civil y m d * msPerDay) else None
         | _ \<Rightarrow> None)
      else None)"

definition iso_time :: "string \<Rightarrow> int option" where
  "iso_time s =
     (if length s = 10 \<and> s ! 0 = CHR ''T'' \<and> s ! 3 = CHR '':'' \<and> s ! 6 = CHR '':''
         \<and> s ! 9 = CHR ''Z'' then
        (case (num_field (take 2 (drop 1 s)), num_field (take 2 (drop 4 s)),
               num_field (take 2 (drop 7 s))) of
           (Some h, Some mi, Some sec) \<Rightarrow>
             if h \<le> 23 \<and> mi \<le> 59 \<and> sec \<le> 59
             then Some (h * 3600000 + mi * 60000 + sec * 1000) else None
         | _ \<Rightarrow> None)
      else None)"

definition iso_parse :: "string \<Rightarrow> int option" where
  "iso_parse s =
     (if length s = 10 then iso_date s
      else case (iso_date (take 10 s), iso_time (drop 10 s)) of
             (Some d, Some t) \<Rightarrow> Some (d + t)
           | _ \<Rightarrow> None)"

text \<open>The reference platform of the examples: the parser above, in UTC.\<close>

definition utc :: platform where
  "utc = \<lparr> Date_parse = iso_parse, LocalTZA = (\<lambda>t. 0) \<rparr>"

text \<open>The same parser at UTC+6 (Asia/Dhaka).\<close>

definition dhaka :: platform where
  "dhaka = \<lparr> Date_parse = iso_parse, LocalTZA = (\<lambda>t. 21600000) \<rparr>"

subsection \<open>The data model\<close>

record OrderItem =
  name :: string
  quantity :: rat
  price :: rat

record Order =
  order_id :: string
  order_code :: string
  restaurant_name :: string
  total_value :: rat
  subtotal :: rat
  delivery_fee :: rat
  service_fee :: rat
  voucher_discount :: rat
  status :: string
  date :: string
  items :: "OrderItem list"
  payment_method :: string

record SpendingCategory =
  category_type :: string
  category_description :: string
  category_color :: string

record SpendingAnalytics =
  total_spent :: number
  average_order_value :: number
  median_order_value :: number
  total_delivery_fees :: number
  total_service_fees :: number
  total_voucher_savings :: number
  voucher_usage_rate :: number
  monthly_spending :: "number obj"
  spending_category :: SpendingCategory

record LoyaltyAnalysis =
  level :: string
  loyalty_description :: string
  top_restaurant :: string
  top_restaurant_percentage :: number

record RestaurantAnalytics =
  top_restaurants_by_orders :: "nat obj"
  unique_restaurants :: nat
  loyalty_analysis :: LoyaltyAnalysis

record FoodAnalytics =
  top_food_items :: "nat obj"
  food_categories :: "nat obj"
  average_items_per_order :: number
  total_unique_items :: nat

record WeekendVsWeekday =
  weekend_orders :: nat
  weekday_orders :: nat
  weekend_percentage :: number

record PatternAnalytics =
  peak_hour :: number
  peak_day :: string
  weekend_vs_weekday :: WeekendVsWeekday
  hourly_patterns :: "nat obj"

record PaymentAnalytics =
  payment_method_counts :: "nat obj"
  preferred_payment_method :: string

record PriceRange =
  price_min :: number
  price_max :: number

record PriceAnalytics =
  average_price_per_item :: number
  price_range :: PriceRange
  restaurant_value_scores :: "number obj"
  discount_effectiveness :: number
  price_trend_over_time :: "number obj"

record OrderSizeDistribution =
  small :: nat
  medium :: nat
  large :: nat

record AddonFrequency =
  drinks_percentage :: number
  desserts_percentage :: number

record ReorderPatterns =
  exact_reorder_count :: nat
  similar_items_frequency :: "nat obj"

record OrderBehaviorAnalytics =
  order_size_distribution :: OrderSizeDistribution
  average_basket_size :: number
  addon_frequency :: AddonFrequency
  reorder_patterns :: ReorderPatterns

record DiversityAnalytics =
  cuisine_switching_rate :: number
  new_restaurants_per_month :: "nat obj"
  restaurant_discovery_rate :: number
  cuisine_preference_evolution :: "(nat obj) obj"
  variety_score :: number

record TimeGapDistribution =
  same_day :: nat
  within_week :: nat
  within_month :: nat
  over_month :: nat

record TimeAnalytics =
  order_frequency_trend :: "nat obj"
  average_days_between_orders :: number
  spending_by_day_of_week :: "number obj"
  seasonal_patterns :: "number obj"
  time_gap_distribution :: TimeGapDistribution
  ordering_acceleration :: number

record VoucherImpact =
  avg_savings_with_voucher :: number
  avg_order_value_with_voucher :: number
  avg_order_value_without_voucher :: number

record DeliveryFeeVariance =
  fee_min :: number
  fee_max :: number
  fee_avg :: number

record CostOptimizationAnalytics =
  fee_to_food_ratio :: number
  average_fee_percentage :: number
  optimal_order_value :: number
  voucher_impact :: VoucherImpact
  delivery_fee_variance :: DeliveryFeeVariance
  potential_savings :: number

record MealTypeDistribution =
  breakfast :: nat
  lunch :: nat
  dinner :: nat
  snack :: nat

record HealthDietaryAnalytics =
  healthy_vs_indulgent_ratio :: number
  meal_type_distribution :: MealTypeDistribution
  drink_to_food_ratio :: number
  healthy_food_percentage :: number
  indulgent_food_percentage :: number
  category_health_scores :: "number obj"

datatype trend = increasing | decreasing | stable

record PredictiveAnalytics =
  forecasted_monthly_spending :: number
  spending_trend :: trend
  trend_percentage :: number
  predicted_next_order_days :: number
  estimated_annual_spending :: number

record ExplorationVsExploitation =
  exploration_percentage :: number
  exploitation_percentage :: number

record AdvancedMetrics =
  customer_lifetime_value :: number
  order_efficiency_score :: number
  brand_loyalty_score :: number
  spontaneity_index :: number
  deal_dependency_ratio :: number
  churn_risk_score :: number
  exploration_vs_exploitation :: ExplorationVsExploitation

record ComparativeMetrics =
  spending_percentile :: number
  order_frequency_category :: string
  value_consciousness_score :: number

datatype insight_category =
  spending_insight | voucher_insight | timing_insight | loyalty_insight | frequency_insight
  | optimization_insight | health_insight | prediction_insight | other_insight

text \<open>
  A template literal is kept as its pieces: the literal text, an interpolated number
  (\<^verbatim>\<open>${hour}\<close>), a number formatted by \<^verbatim>\<open>toFixed(d)\<close>, an interpolated counter. The
  rendering of numbers is the platform's and is not modelled. A character outside ASCII
  is written by its code point, \<^verbatim>\<open><U+09F3>\<close> for the Taka sign.
\<close>

datatype piece = Lit string | Num number | Fixed number nat | Count nat

type_synonym template = "piece list"

record Insight =
  category :: insight_category
  icon :: string
  title :: string
  description :: template
  detailedExplanation :: template
  color :: string

record FullAnalytics =
  spending :: SpendingAnalytics
  restaurants :: RestaurantAnalytics
  food :: FoodAnalytics
  patterns :: PatternAnalytics
  payments :: PaymentAnalytics
  prices :: PriceAnalytics
  behavior :: OrderBehaviorAnalytics
  diversity :: DiversityAnalytics
  timeAnalysis :: TimeAnalytics
  costOptimization :: CostOptimizationAnalytics
  healthDietary :: HealthDietaryAnalytics
  predictive :: PredictiveAnalytics
  advanced :: AdvancedMetrics
  comparative :: ComparativeMetrics
  insights :: "Insight list"

subsection \<open>Statistics helpers\<close>

text \<open>
  \<^verbatim>\<open>[...values].sort((a, b) => a - b)\<close> on finite numbers is the ascending sort; the two
  reads of \<^verbatim>\<open>sorted\<close> are in range because the list is not empty there.
\<close>

definition calculateMedian :: "rat list \<Rightarrow> rat" where
  "calculateMedian vals =
     (if length vals = 0 then 0
      else let sorted_vals = sort vals;
               mid = length sorted_vals div 2
           in if length sorted_vals mod 2 \<noteq> 0 then sorted_vals ! mid
              else (sorted_vals ! (mid - 1) + sorted_vals ! mid) / 2)"

definition calculateVariance :: "number list \<Rightarrow> number" where
  "calculateVariance vals =
     (if length vals = 0 then Fin 0
      else let mean = mean_numbers vals;
               squaredDiffs = map (\<lambda>v. Math_pow2 (nminus v mean)) vals
           in mean_numbers squaredDiffs)"

text \<open>The sort by \<^verbatim>\<open>b - a\<close> is stable: entries of equal count keep their order.\<close>

definition getTopN :: "nat obj \<Rightarrow> nat \<Rightarrow> nat obj" where
  "getTopN record n = fromEntries (take n (sort_key (\<lambda>(k, v). - int v) record))"

text \<open>
  \<^verbatim>\<open>Object.keys(m).reduce((a, b) => m[a] > m[b] ? a : b, init)\<close>; a missing entry is
  \<^verbatim>\<open>undefined\<close>, which is greater than nothing.
\<close>

definition count_gt :: "nat option \<Rightarrow> nat option \<Rightarrow> bool" where
  "count_gt x y = (case (x, y) of (Some c, Some d) \<Rightarrow> d < c | _ \<Rightarrow> False)"

definition reduce_max_key :: "nat obj \<Rightarrow> string \<Rightarrow> string" where
  "reduce_max_key m init =
     fold (\<lambda>b a. if count_gt (obj_get m a) (obj_get m b) then a else b) (keys m) init"

subsection \<open>Spending\<close>

definition categorizeSpending :: "number \<Rightarrow> SpendingCategory" where
  "categorizeSpending avg =
     (if ngt avg (Fin 400) then
        \<lparr> category_type = ''Big Spender'', category_description = ''You love premium food'',
          category_color = ''#e74c3c'' \<rparr>
      else if ngt avg (Fin 250) then
        \<lparr> category_type = ''Medium Spender'', category_description = ''Balanced spending'',
          category_color = ''#f39c12'' \<rparr>
      else
        \<lparr> category_type = ''Light Spender'', category_description = ''You save money'',
          category_color = ''#27ae60'' \<rparr>)"

text \<open>\<^verbatim>\<open>`${d.getFullYear()}-${String(d.getMonth() + 1).padStart(2, '0')}`\<close>\<close>

definition monthKey :: "platform \<Rightarrow> string \<Rightarrow> string" where
  "monthKey p s =
     String_date_field (getFullYear p s) @ ''-''
     @ padStart 2 (CHR ''0'') (String_date_field (map_option (\<lambda>m. m + 1) (getMonth p s)))"

definition analyzeSpending :: "platform \<Rightarrow> Order list \<Rightarrow> SpendingAnalytics" where
  "analyzeSpending p orders =
     (let totalSpent = sumBy total_value orders;
          avgOrderValue = ndiv totalSpent (of_count (length orders));
          medianOrderValue = Fin (calculateMedian (map total_value orders));
          monthlySpending = groupBy (\<lambda>order. monthKey p (date order)) orders;
          monthlySpendingTotal =
            fold (\<lambda>(k, v) acc. obj_set acc k (sumBy total_value v)) monthlySpending [];
          voucherOrders = filter (\<lambda>order. 0 < voucher_discount order) orders;
          voucherUsageRate =
            ntimes (ndiv (of_count (length voucherOrders)) (of_count (length orders))) (Fin 100)
      in \<lparr> total_spent = totalSpent,
           average_order_value = avgOrderValue,
           median_order_value = medianOrderValue,
           total_delivery_fees = sumBy delivery_fee orders,
           total_service_fees = sumBy service_fee orders,
           total_voucher_savings = sumBy voucher_discount orders,
           voucher_usage_rate = voucherUsageRate,
           monthly_spending = monthlySpendingTotal,
           spending_category = categorizeSpending avgOrderValue \<rparr>)"

subsection \<open>Restaurants\<close>

definition analyzeRestaurants :: "Order list \<Rightarrow> RestaurantAnalytics" where
  "analyzeRestaurants orders =
     (let restaurantCounts = countBy (map restaurant_name orders);
          topRestaurants = getTopN restaurantCounts 10;
          topRestName = (case keys topRestaurants of [] \<Rightarrow> [] | k # ks \<Rightarrow> k);
          topRestCount = (case obj_get topRestaurants topRestName of None \<Rightarrow> 0 | Some c \<Rightarrow> c);
          loyaltyPct = ntimes (ndiv (of_count topRestCount) (of_count (length orders))) (Fin 100);
          loyaltyLevel = (if ngt loyaltyPct (Fin 30) then ''Super Loyal''
                          else if ngt loyaltyPct (Fin 15) then ''Loyal'' else ''Explorer'');
          desc = (if ngt loyaltyPct (Fin 30) then ''You have a favorite place''
                  else if ngt loyaltyPct (Fin 15) then ''You like some places more''
                  else ''You try many places'')
      in \<lparr> top_restaurants_by_orders = topRestaurants,
           unique_restaurants = length (keys restaurantCounts),
           loyalty_analysis =
             \<lparr> level = loyaltyLevel, loyalty_description = desc, top_restaurant = topRestName,
               top_restaurant_percentage = loyaltyPct \<rparr> \<rparr>)"

subsection \<open>Food\<close>

definition foodCategories :: "(string list) obj" where
  "foodCategories =
     [(''Burger'', [''burger'', ''beef burger'', ''chicken burger'']),
      (''Pizza'', [''pizza'']),
      (''Rice/Biriyani'', [''rice'', ''biriyani'', ''biryani'', ''kacchi'', ''khichuri'', ''polao'']),
      (''Chicken'', [''chicken'', ''grilled chicken'', ''fried chicken'', ''wings'']),
      (''Fast Food'', [''fries'', ''sandwich'', ''wrap'', ''sub'', ''shawarma'', ''taco'', ''nachos'']),
      (''Drinks'', [''coke'', ''pepsi'', ''juice'', ''water'', ''drink'', ''faluda'', ''shake'',
                   ''smoothie'', ''coffee'', ''tea'']),
      (''Dessert'', [''ice cream'', ''cake'', ''dessert'', ''sweet'', ''kulfi'', ''waffle'', ''donut'',
                    ''cookie'', ''brownie'']),
      (''Pasta'', [''pasta'', ''spaghetti'', ''lasagna'', ''macaroni'']),
      (''Healthy'', [''salad'', ''soup'', ''veg'', ''fruit''])]"

definition analyzeFood :: "Order list \<Rightarrow> FoodAnalytics" where
  "analyzeFood orders =
     (let allItems = concat (map (\<lambda>order. map (\<lambda>i. trim (toLowerCase (name i))) (items order)) orders);
          itemCounts = countBy allItems;
          categoriesCount =
            fold (\<lambda>(cat, keywords) acc.
                    let count = length (filter (includes_some keywords) allItems)
                    in if 0 < count then obj_set acc cat count else acc)
              foodCategories []
      in \<lparr> top_food_items = getTopN itemCounts 15,
           food_categories = categoriesCount,
           average_items_per_order = ndiv (of_count (length allItems)) (of_count (length orders)),
           total_unique_items = length (keys itemCounts) \<rparr>)"

subsection \<open>Patterns\<close>

text \<open>
  The filter of \<^verbatim>\<open>weekendOrders\<close> returns at its first statement,
  \<^verbatim>\<open>return day === 5 || day === 6\<close>; the second return of the source, after the comments,
  is never reached.
\<close>

definition isWeekendOrder :: "platform \<Rightarrow> Order \<Rightarrow> bool" where
  "isWeekendOrder p order = (let day = getDay p (date order) in day = Some 5 \<or> day = Some 6)"

definition analyzePatterns :: "platform \<Rightarrow> Order list \<Rightarrow> PatternAnalytics" where
  "analyzePatterns p orders =
     (let hours = map (\<lambda>order. getHours p (date order)) orders;
          days = map (\<lambda>order. toLocaleDateString_weekday p (date order)) orders;
          hourlyPatterns = countBy (map String_date_field hours);
          dayPatterns = countBy days;
          peakHour = parseInt (reduce_max_key hourlyPatterns ''0'');
          peakDay = reduce_max_key dayPatterns [];
          weekendOrders = length (filter (isWeekendOrder p) orders)
      in \<lparr> peak_hour = peakHour,
           peak_day = peakDay,
           weekend_vs_weekday =
             \<lparr> weekend_orders = weekendOrders,
               weekday_orders = length orders - weekendOrders,
               weekend_percentage =
                 ntimes (ndiv (of_count weekendOrders) (of_count (length orders))) (Fin 100) \<rparr>,
           hourly_patterns = hourlyPatterns \<rparr>)"

subsection \<open>Payments\<close>

definition analyzePayments :: "Order list \<Rightarrow> PaymentAnalytics" where
  "analyzePayments orders =
     (let counts = countBy (map payment_method orders);
          preferred = reduce_max_key counts ''N/A''
      in \<lparr> payment_method_counts = counts, preferred_payment_method = preferred \<rparr>)"

subsection \<open>Prices\<close>

definition totalQuantity :: "OrderItem list \<Rightarrow> rat" where
  "totalQuantity its = fold (\<lambda>item sum. sum + quantity item) its 0"

definition totalCost :: "OrderItem list \<Rightarrow> rat" where
  "totalCost its = fold (\<lambda>item sum. sum + price item * quantity item) its 0"

definition analyzePrices :: "platform \<Rightarrow> Order list \<Rightarrow> PriceAnalytics" where
  "analyzePrices p orders =
     (let allItems = concat (map items orders);
          totalItems = totalQuantity allItems;
          totalItemCost = totalCost allItems;
          avgPricePerItem = (if 0 < totalItems then Fin (totalItemCost / totalItems) else Fin 0);
          itemPrices = map (\<lambda>item. Fin (price item)) allItems;
          priceRange =
            \<lparr> price_min = (if 0 < length itemPrices then Math_min_list itemPrices else Fin 0),
              price_max = (if 0 < length itemPrices then Math_max_list itemPrices else Fin 0) \<rparr>;
          restaurantOrders = groupBy restaurant_name orders;
          restaurantValueScores =
            fold (\<lambda>(nm, os) acc. obj_set acc nm (meanBy total_value os)) restaurantOrders [];
          voucherOrders = filter (\<lambda>order. 0 < voucher_discount order) orders;
          discountEffectiveness =
            (if 0 < length voucherOrders then meanBy voucher_discount voucherOrders else Fin 0);
          monthlyOrders = groupBy (\<lambda>order. monthKey p (date order)) orders;
          priceTrendOverTime =
            fold (\<lambda>(month, monthOrders) acc.
                    let monthItems = concat (map items monthOrders);
                        monthTotalItems = totalQuantity monthItems;
                        monthTotalCost = totalCost monthItems
                    in obj_set acc month
                         (if 0 < monthTotalItems then Fin (monthTotalCost / monthTotalItems)
                          else Fin 0))
              monthlyOrders []
      in \<lparr> average_price_per_item = avgPricePerItem,
           price_range = priceRange,
           restaurant_value_scores = restaurantValueScores,
           discount_effectiveness = discountEffectiveness,
           price_trend_over_time = priceTrendOverTime \<rparr>)"

subsection \<open>Order behaviour\<close>

definition drinkKeywords_behavior :: "string list" where
  "drinkKeywords_behavior =
     [''coke'', ''pepsi'', ''juice'', ''water'', ''drink'', ''shake'', ''coffee'', ''tea'']"

definition dessertKeywords :: "string list" where
  "dessertKeywords = [''ice cream'', ''cake'', ''dessert'', ''sweet'', ''waffle'', ''donut'']"

text \<open>The first \<^verbatim>\<open>forEach\<close>: the three counters \<^verbatim>\<open>small\<close>, \<^verbatim>\<open>medium\<close>, \<^verbatim>\<open>large\<close>.\<close>

definition sizeStep :: "Order \<Rightarrow> nat \<times> nat \<times> nat \<Rightarrow> nat \<times> nat \<times> nat" where
  "sizeStep order c =
     (case c of (s, m, l) \<Rightarrow>
        let itemCount = totalQuantity (items order)
        in if itemCount \<le> 2 then (s + 1, m, l)
           else if itemCount \<le> 5 then (s, m + 1, l)
           else (s, m, l + 1))"

text \<open>The second \<^verbatim>\<open>forEach\<close>: \<^verbatim>\<open>ordersWithDrinks\<close> and \<^verbatim>\<open>ordersWithDesserts\<close>.\<close>

definition addonStep :: "Order \<Rightarrow> nat \<times> nat \<Rightarrow> nat \<times> nat" where
  "addonStep order c =
     (case c of (d, s) \<Rightarrow>
        let itemNames = map (\<lambda>i. toLowerCase (name i)) (items order)
        in (if list_ex (includes_some drinkKeywords_behavior) itemNames then d + 1 else d,
            if list_ex (includes_some dessertKeywords) itemNames then s + 1 else s))"

text \<open>\<^verbatim>\<open>order.items.map(i => i.name.toLowerCase().trim()).sort().join('|')\<close>\<close>

definition itemSignature :: "Order \<Rightarrow> string" where
  "itemSignature order = join ''|'' (sort (map (\<lambda>i. trim (toLowerCase (name i))) (items order)))"

definition analyzeOrderBehavior :: "Order list \<Rightarrow> OrderBehaviorAnalytics" where
  "analyzeOrderBehavior orders =
     (let sizes = fold sizeStep orders (0, 0, 0);
          avgBasketSize =
            ndiv (Fin (fold (\<lambda>order sum. sum + totalQuantity (items order)) orders 0))
              (of_count (length orders));
          addons = fold addonStep orders (0, 0);
          ordersWithDrinks = fst addons;
          ordersWithDesserts = snd addons;
          itemSignatures = map itemSignature orders;
          signatureCounts = countBy itemSignatures;
          exactReorderCount = length (filter (\<lambda>count. 1 < count) (values_of signatureCounts));
          allItems =
            concat (map (\<lambda>order. map (\<lambda>i. trim (toLowerCase (name i))) (items order)) orders);
          itemCounts = countBy allItems;
          reorderedItems =
            fromEntries
              (take 10 (sort_key (\<lambda>(k, v). - int v) (filter (\<lambda>(k, count). 2 < count) itemCounts)))
      in \<lparr> order_size_distribution =
             \<lparr> small = fst sizes, medium = fst (snd sizes), large = snd (snd sizes) \<rparr>,
           average_basket_size = avgBasketSize,
           addon_frequency =
             \<lparr> drinks_percentage =
                 ntimes (ndiv (of_count ordersWithDrinks) (of_count (length orders))) (Fin 100),
               desserts_percentage =
                 ntimes (ndiv (of_count ordersWithDesserts) (of_count (length orders))) (Fin 100) \<rparr>,
           reorder_patterns =
             \<lparr> exact_reorder_count = exactReorderCount,
               similar_items_frequency = reorderedItems \<rparr> \<rparr>)"

subsection \<open>Diversity\<close>

text \<open>
  The \<^verbatim>\<open>forEach\<close> over the orders: \<^verbatim>\<open>toISOString\<close> is called on every order, before
  the test of the set of seen restaurants, and throws on the first Invalid Date.
\<close>

fun newRestaurants ::
  "platform \<Rightarrow> Order list \<Rightarrow> string list \<times> nat obj \<Rightarrow> error + (string list \<times> nat obj)" where
  "newRestaurants p [] st = Inr st"
| "newRestaurants p (order # rest) st =
     (case isoMonth p (date order) of
        Inl e \<Rightarrow> Inl e
      | Inr month \<Rightarrow>
          (case st of (seenRestaurants, monthlyNewRestaurants) \<Rightarrow>
             if restaurant_name order \<notin> set seenRestaurants
             then newRestaurants p rest
                    (seenRestaurants @ [restaurant_name order],
                     obj_set monthlyNewRestaurants month
                       ((case obj_get monthlyNewRestaurants month of Some c \<Rightarrow> c | None \<Rightarrow> 0) + 1))
             else newRestaurants p rest st))"

definition analyzeDiversity :: "platform \<Rightarrow> Order list \<Rightarrow> error + DiversityAnalytics" where
  "analyzeDiversity p orders =
     (if length orders < 2 then
        Inr \<lparr> cuisine_switching_rate = Fin 0, new_restaurants_per_month = [],
              restaurant_discovery_rate = Fin 0, cuisine_preference_evolution = [],
              variety_score = Fin 0 \<rparr>
      else
        let switches =
              length (filter (\<lambda>(prev, cur). restaurant_name cur \<noteq> restaurant_name prev)
                        (zip orders (tl orders)));
            cuisineSwitchingRate =
              ntimes (ndiv (of_count switches) (of_count (length orders - 1))) (Fin 100)
        in case newRestaurants p orders ([], []) of
             Inl e \<Rightarrow> Inl e
           | Inr (seenRestaurants, monthlyNewRestaurants) \<Rightarrow>
               let discoveryRate =
                     (if 0 < length (values_of monthlyNewRestaurants)
                      then mean_numbers (map of_count (values_of monthlyNewRestaurants))
                      else Fin 0)
               in case traverse (\<lambda>order. isoMonth p (date order)) orders of
                    Inl e \<Rightarrow> Inl e
                  | Inr months \<Rightarrow>
                      let monthlyRestaurants = groupBy fst (zip months orders);
                          cuisinePreferenceEvolution =
                            fold (\<lambda>(month, monthOrders) acc.
                                    obj_set acc month
                                      (countBy (map (\<lambda>mo. restaurant_name (snd mo)) monthOrders)))
                              monthlyRestaurants [];
                          uniqueRestaurants = length seenRestaurants;
                          totalOrders = length orders;
                          varietyScore =
                            Math_min (Fin 100)
                              (ntimes (ntimes (ndiv (of_count uniqueRestaurants) (of_count totalOrders))
                                         (Fin 100)) (Fin 2))
                      in Inr \<lparr> cuisine_switching_rate = cuisineSwitchingRate,
                               new_restaurants_per_month = monthlyNewRestaurants,
                               restaurant_discovery_rate = discoveryRate,
                               cuisine_preference_evolution = cuisinePreferenceEvolution,
                               variety_score = varietyScore \<rparr>)"

subsection \<open>Time patterns\<close>

text \<open>\<^verbatim>\<open>(new Date(b.date).getTime() - new Date(a.date).getTime()) / (1000 * 60 * 60 * 24)\<close>\<close>

definition daysFromTo :: "platform \<Rightarrow> Order \<Rightarrow> Order \<Rightarrow> number" where
  "daysFromTo p a b =
     ndiv (nminus (of_date_field (getTime p (date b))) (of_date_field (getTime p (date a))))
       (Fin 86400000)"

text \<open>\<^verbatim>\<open>(m[k] || 0)\<close>\<close>

definition or_zero :: "number option \<Rightarrow> number" where
  "or_zero x = (case x of None \<Rightarrow> Fin 0 | Some v \<Rightarrow> if truthy v then v else Fin 0)"

text \<open>\<^verbatim>\<open>dayNames[new Date(order.date).getDay()]\<close> as a property key.\<close>

definition dayNameKey :: "platform \<Rightarrow> Order \<Rightarrow> string" where
  "dayNameKey p order =
     (case getDay p (date order) of None \<Rightarrow> ''undefined'' | Some d \<Rightarrow> dayNames ! nat d)"

definition quarterKey :: "platform \<Rightarrow> Order \<Rightarrow> string" where
  "quarterKey p order =
     String_date_field (getFullYear p (date order)) @ ''-Q''
     @ String_date_field (map_option (\<lambda>m. m div 3 + 1) (getMonth p (date order)))"

definition gapStep :: "number \<Rightarrow> TimeGapDistribution \<Rightarrow> TimeGapDistribution" where
  "gapStep days g =
     (if nlt days (Fin 1) then g\<lparr>same_day := same_day g + 1\<rparr>
      else if nle days (Fin 7) then g\<lparr>within_week := within_week g + 1\<rparr>
      else if nle days (Fin 30) then g\<lparr>within_month := within_month g + 1\<rparr>
      else g\<lparr>over_month := over_month g + 1\<rparr>)"

definition analyzeTimePatterns :: "platform \<Rightarrow> Order list \<Rightarrow> error + TimeAnalytics" where
  "analyzeTimePatterns p orders =
     (if length orders = 0 then
        Inr \<lparr> order_frequency_trend = [], average_days_between_orders = Fin 0,
              spending_by_day_of_week = [], seasonal_patterns = [],
              time_gap_distribution =
                \<lparr> same_day = 0, within_week = 0, within_month = 0, over_month = 0 \<rparr>,
              ordering_acceleration = Fin 0 \<rparr>
      else
        case traverse (\<lambda>order. isoMonth p (date order)) orders of
          Inl e \<Rightarrow> Inl e
        | Inr months \<Rightarrow>
            let monthlyFrequency = countBy months;
                daysBetween = map (\<lambda>(prev, cur). daysFromTo p prev cur) (zip orders (tl orders));
                avgDaysBetween = (if 0 < length daysBetween then mean_numbers daysBetween else Fin 0);
                spendingByDay =
                  fold (\<lambda>order acc.
                          obj_set acc (dayNameKey p order)
                            (nplus (or_zero (obj_get acc (dayNameKey p order)))
                               (Fin (total_value order))))
                    orders [];
                seasonalSpending =
                  fold (\<lambda>order acc.
                          obj_set acc (quarterKey p order)
                            (nplus (or_zero (obj_get acc (quarterKey p order)))
                               (Fin (total_value order))))
                    orders [];
                timeGaps =
                  fold gapStep daysBetween
                    \<lparr> same_day = 0, within_week = 0, within_month = 0, over_month = 0 \<rparr>;
                midPoint = length orders div 2
            in if 0 < midPoint then
                 let firstHalfDays = daysFromTo p (orders ! 0) (orders ! midPoint);
                     secondHalfDays = daysFromTo p (orders ! midPoint) (orders ! (length orders - 1));
                     firstHalfFreq =
                       (if ngt firstHalfDays (Fin 0) then ndiv (of_count midPoint) firstHalfDays
                        else Fin 0);
                     secondHalfFreq =
                       (if ngt secondHalfDays (Fin 0)
                        then ndiv (of_count (length orders - midPoint)) secondHalfDays
                        else Fin 0);
                     orderingAcceleration =
                       (if ngt firstHalfFreq (Fin 0)
                        then ntimes (ndiv (nminus secondHalfFreq firstHalfFreq) firstHalfFreq) (Fin 100)
                        else Fin 0)
                 in Inr \<lparr> order_frequency_trend = monthlyFrequency,
                          average_days_between_orders = avgDaysBetween,
                          spending_by_day_of_week = spendingByDay,
                          seasonal_patterns = seasonalSpending,
                          time_gap_distribution = timeGaps,
                          ordering_acceleration = orderingAcceleration \<rparr>
               else
                 Inr \<lparr> order_frequency_trend = monthlyFrequency,
                       average_days_between_orders = avgDaysBetween,
                       spending_by_day_of_week = spendingByDay,
                       seasonal_patterns = seasonalSpending,
                       time_gap_distribution = timeGaps,
                       ordering_acceleration = Fin 0 \<rparr>)"

subsection \<open>Cost optimization\<close>

definition analyzeCostOptimization :: "Order list \<Rightarrow> CostOptimizationAnalytics" where
  "analyzeCostOptimization orders =
     (let totalSpent = sumBy total_value orders;
          totalFees = sumBy (\<lambda>order. delivery_fee order + service_fee order) orders;
          totalFood = nminus totalSpent totalFees;
          feeToFoodRatio =
            (if ngt totalFood (Fin 0) then ntimes (ndiv totalFees totalFood) (Fin 100) else Fin 0);
          avgFeePercentage =
            (if ngt totalSpent (Fin 0) then ntimes (ndiv totalFees totalSpent) (Fin 100) else Fin 0);
          voucherOrders = filter (\<lambda>order. 0 < voucher_discount order) orders;
          nonVoucherOrders = filter (\<lambda>order. voucher_discount order = 0) orders;
          voucherImpact =
            \<lparr> avg_savings_with_voucher =
                (if 0 < length voucherOrders then meanBy voucher_discount voucherOrders else Fin 0),
              avg_order_value_with_voucher =
                (if 0 < length voucherOrders then meanBy total_value voucherOrders else Fin 0),
              avg_order_value_without_voucher =
                (if 0 < length nonVoucherOrders then meanBy total_value nonVoucherOrders
                 else Fin 0) \<rparr>;
          deliveryFees = map (\<lambda>order. Fin (delivery_fee order)) orders;
          deliveryFeeVariance =
            \<lparr> fee_min = Math_min_list deliveryFees, fee_max = Math_max_list deliveryFees,
              fee_avg = mean_numbers deliveryFees \<rparr>;
          optimalOrderValue = ntimes (fee_avg deliveryFeeVariance) (Fin 10);
          suboptimalOrders = filter (\<lambda>order. nlt (Fin (subtotal order)) optimalOrderValue) orders;
          potentialSavings =
            ntimes (of_count (length suboptimalOrders))
              (ntimes (fee_avg deliveryFeeVariance) (Fin (1 / 2)))
      in \<lparr> fee_to_food_ratio = feeToFoodRatio,
           average_fee_percentage = avgFeePercentage,
           optimal_order_value = optimalOrderValue,
           voucher_impact = voucherImpact,
           delivery_fee_variance = deliveryFeeVariance,
           potential_savings = potentialSavings \<rparr>)"

subsection \<open>Health and diet\<close>

definition healthyKeywords :: "string list" where
  "healthyKeywords = [''salad'', ''soup'', ''veg'', ''fruit'', ''grilled'']"

definition indulgentKeywords :: "string list" where
  "indulgentKeywords = [''burger'', ''pizza'', ''fries'', ''cake'', ''ice cream'', ''fried'']"

definition drinkKeywords_health :: "string list" where
  "drinkKeywords_health = [''coke'', ''pepsi'', ''juice'', ''water'', ''drink'', ''shake'']"

definition healthStep :: "string \<Rightarrow> nat \<times> nat \<times> nat \<Rightarrow> nat \<times> nat \<times> nat" where
  "healthStep item c =
     (case c of (h, i, d) \<Rightarrow>
        (if includes_some healthyKeywords item then h + 1 else h,
         if includes_some indulgentKeywords item then i + 1 else i,
         if includes_some drinkKeywords_health item then d + 1 else d))"

text \<open>\<^verbatim>\<open>hour >= lo && hour < hi\<close>, false for the \<open>NaN\<close> of an Invalid Date.\<close>

definition hour_in :: "int option \<Rightarrow> int \<Rightarrow> int \<Rightarrow> bool" where
  "hour_in hour lo hi = (case hour of None \<Rightarrow> False | Some h \<Rightarrow> lo \<le> h \<and> h < hi)"

definition mealStep :: "platform \<Rightarrow> Order \<Rightarrow> MealTypeDistribution \<Rightarrow> MealTypeDistribution" where
  "mealStep p order mealTypes =
     (let hour = getHours p (date order)
      in if hour_in hour 5 11 then mealTypes\<lparr>breakfast := breakfast mealTypes + 1\<rparr>
         else if hour_in hour 11 16 then mealTypes\<lparr>lunch := lunch mealTypes + 1\<rparr>
         else if hour_in hour 16 22 then mealTypes\<lparr>dinner := dinner mealTypes + 1\<rparr>
         else mealTypes\<lparr>snack := snack mealTypes + 1\<rparr>)"

definition analyzeHealthDietary ::
  "platform \<Rightarrow> Order list \<Rightarrow> PatternAnalytics \<Rightarrow> HealthDietaryAnalytics" where
  "analyzeHealthDietary p orders patterns' =
     (let allItems = concat (map (\<lambda>order. map (\<lambda>i. toLowerCase (name i)) (items order)) orders);
          counts = fold healthStep allItems (0, 0, 0);
          healthyCount = fst counts;
          indulgentCount = fst (snd counts);
          drinkCount = snd (snd counts);
          totalItems = length allItems;
          healthyPercentage =
            (if 0 < totalItems
             then ntimes (ndiv (of_count healthyCount) (of_count totalItems)) (Fin 100) else Fin 0);
          indulgentPercentage =
            (if 0 < totalItems
             then ntimes (ndiv (of_count indulgentCount) (of_count totalItems)) (Fin 100)
             else Fin 0);
          healthyVsIndulgentRatio =
            (if 0 < indulgentCount then ndiv (of_count healthyCount) (of_count indulgentCount)
             else of_count healthyCount);
          mealTypes =
            fold (mealStep p) orders \<lparr> breakfast = 0, lunch = 0, dinner = 0, snack = 0 \<rparr>;
          drinkToFoodRatio =
            (if 0 < int totalItems - int drinkCount
             then ndiv (of_count drinkCount) (Fin (of_int (int totalItems - int drinkCount)))
             else Fin 0)
      in \<lparr> healthy_vs_indulgent_ratio = healthyVsIndulgentRatio,
           meal_type_distribution = mealTypes,
           drink_to_food_ratio = drinkToFoodRatio,
           healthy_food_percentage = healthyPercentage,
           indulgent_food_percentage = indulgentPercentage,
           category_health_scores = [] \<rparr>)"

subsection \<open>Predictive analytics\<close>

text \<open>
  \<^verbatim>\<open>Object.entries(spending.monthly_spending).sort()\<close> compares the entries as the strings
  \<^verbatim>\<open>key + "," + value\<close>. For keys that differ and hold no comma the comparison is decided
  inside \<^verbatim>\<open>key + ","\<close>, and the order is the one computed here; the rendering of the
  values, which decides between other keys, is not modelled. The month keys are of the first
  kind, and the properties below are stated for such keys only.
\<close>

definition sortEntries :: "number obj \<Rightarrow> (string \<times> number) list" where
  "sortEntries m = sort_key (\<lambda>(k, v). k @ '','') m"

text \<open>The \<^verbatim>\<open>forEach\<close> over the recent months: \<^verbatim>\<open>weightedSum\<close> and \<^verbatim>\<open>totalWeight\<close>.\<close>

definition weightStep :: "(string \<times> number) \<times> nat \<Rightarrow> number \<times> number \<Rightarrow> number \<times> number" where
  "weightStep e c =
     (case e of ((k, val), idx) \<Rightarrow>
        (case c of (weightedSum, totalWeight) \<Rightarrow>
           let weight = of_count (idx + 1)
           in (nplus weightedSum (ntimes val weight), nplus totalWeight weight)))"

text \<open>The body of \<^verbatim>\<open>if (recentMonthsData.length >= 2)\<close>: the slope over the mean, in percent.\<close>

definition regressionTrend :: "number list \<Rightarrow> number" where
  "regressionTrend yValues =
     (let xValues = map of_count [0 ..< length yValues];
          n = of_count (length yValues);
          sumX = sum_numbers xValues;
          sumY = sum_numbers yValues;
          sumXY = sum_numbers (map (\<lambda>(x, y). ntimes x y) (zip xValues yValues));
          sumXX = sum_numbers (map (\<lambda>x. ntimes x x) xValues);
          slope = ndiv (nminus (ntimes n sumXY) (ntimes sumX sumY))
                    (nminus (ntimes n sumXX) (ntimes sumX sumX));
          averageY = ndiv sumY n
      in if nne averageY (Fin 0) then ntimes (ndiv slope averageY) (Fin 100) else Fin 0)"

definition analyzePredictive ::
  "platform \<Rightarrow> Order list \<Rightarrow> SpendingAnalytics \<Rightarrow> TimeAnalytics \<Rightarrow> PredictiveAnalytics" where
  "analyzePredictive p orders spending' timeAnalysis' =
     (if length orders < 2 then
        \<lparr> forecasted_monthly_spending = average_order_value spending',
          spending_trend = stable,
          trend_percentage = Fin 0,
          predicted_next_order_days = Fin 7,
          estimated_annual_spending = ntimes (total_spent spending') (Fin 12) \<rparr>
      else
        let monthlySpendingEntries = sortEntries (monthly_spending spending');
            firstOrderDate = date (orders ! 0);
            lastOrderDate = date (orders ! (length orders - 1));
            monthDiff =
              nplus
                (nplus
                   (ntimes (nminus (of_date_field (getFullYear p lastOrderDate))
                              (of_date_field (getFullYear p firstOrderDate))) (Fin 12))
                   (nminus (of_date_field (getMonth p lastOrderDate))
                      (of_date_field (getMonth p firstOrderDate))))
                (Fin 1);
            activeMonths = Math_max (Fin 1) monthDiff;
            lifetimeMonthlyAvg = ndiv (total_spent spending') activeMonths;
            recentMonthsData =
              drop (length monthlySpendingEntries - 6) monthlySpendingEntries;
            acc = fold weightStep (zip recentMonthsData [0 ..< length recentMonthsData])
                     (Fin 0, Fin 0);
            weightedSum = fst acc;
            totalWeight = snd acc;
            recentWeightedAvg =
              (if 0 < length recentMonthsData then ndiv weightedSum totalWeight
               else lifetimeMonthlyAvg);
            trendPercentage =
              (if 2 \<le> length recentMonthsData then regressionTrend (map snd recentMonthsData)
               else Fin 0);
            cappedTrend = Math_max (Fin (- 15)) (Math_min (Fin 15) trendPercentage);
            baseForecast =
              nplus (ntimes recentWeightedAvg (Fin (7 / 10))) (ntimes lifetimeMonthlyAvg (Fin (3 / 10)));
            forecastedMonthlySpending =
              ntimes baseForecast (nplus (Fin 1) (ndiv cappedTrend (Fin 100)));
            estimatedAnnualSpending = ntimes forecastedMonthlySpending (Fin 12);
            spendingTrend =
              (if ngt cappedTrend (Fin 5) then increasing
               else if nlt cappedTrend (Fin (- 5)) then decreasing else stable);
            predictedNextOrderDays =
              Math_max (Fin 1) (average_days_between_orders timeAnalysis')
        in \<lparr> forecasted_monthly_spending = forecastedMonthlySpending,
             spending_trend = spendingTrend,
             trend_percentage = cappedTrend,
             predicted_next_order_days = predictedNextOrderDays,
             estimated_annual_spending = estimatedAnnualSpending \<rparr>)"

subsection \<open>Advanced metrics\<close>

definition analyzeAdvancedMetrics ::
  "platform \<Rightarrow> Order list \<Rightarrow> RestaurantAnalytics \<Rightarrow> TimeAnalytics \<Rightarrow> SpendingAnalytics
   \<Rightarrow> AdvancedMetrics" where
  "analyzeAdvancedMetrics p orders restaurants' timeAnalysis' spending' =
     (let totalDays =
            (if 1 < length orders then daysFromTo p (orders ! 0) (orders ! (length orders - 1))
             else Fin 30);
          dailyValue = ndiv (total_spent spending') (Math_max (Fin 1) totalDays);
          clv = ntimes dailyValue (Fin 365);
          avgOrdersPerRestaurant =
            ndiv (of_count (length orders))
              (Math_max (Fin 1) (of_count (unique_restaurants restaurants')));
          efficiencyScore = Math_min (Fin 100) (ntimes avgOrdersPerRestaurant (Fin 10));
          loyaltyPct = top_restaurant_percentage (loyalty_analysis restaurants');
          voucherUsage = voucher_usage_rate spending';
          brandLoyaltyScore =
            Math_min (Fin 100)
              (nplus (ntimes loyaltyPct (Fin (6 / 10)))
                 (ntimes (nminus (Fin 100) voucherUsage) (Fin (4 / 10))));
          hours = map (\<lambda>order. of_date_field (getHours p (date order))) orders;
          hourVariance = (if 1 < length hours then calculateVariance hours else Fin 0);
          spontaneityIndex = Math_min (Fin 100) (ntimes (ndiv hourVariance (Fin 50)) (Fin 100));
          dealDependencyRatio = voucher_usage_rate spending';
          churnRiskScore =
            (if nlt (ordering_acceleration timeAnalysis') (Fin (- 20)) then Fin 80
             else if nlt (ordering_acceleration timeAnalysis') (Fin 0) then Fin 50
             else Fin 20);
          restaurantCounts = countBy (map restaurant_name orders);
          topRestaurantCount = Math_max_list (map of_count (values_of restaurantCounts));
          exploitationPercentage =
            ntimes (ndiv topRestaurantCount (of_count (length orders))) (Fin 100);
          explorationPercentage = nminus (Fin 100) exploitationPercentage
      in \<lparr> customer_lifetime_value = clv,
           order_efficiency_score = efficiencyScore,
           brand_loyalty_score = brandLoyaltyScore,
           spontaneity_index = spontaneityIndex,
           deal_dependency_ratio = dealDependencyRatio,
           churn_risk_score = churnRiskScore,
           exploration_vs_exploitation =
             \<lparr> exploration_percentage = explorationPercentage,
               exploitation_percentage = exploitationPercentage \<rparr> \<rparr>)"

subsection \<open>Comparative metrics\<close>

definition analyzeComparative ::
  "SpendingAnalytics \<Rightarrow> TimeAnalytics \<Rightarrow> CostOptimizationAnalytics \<Rightarrow> ComparativeMetrics" where
  "analyzeComparative spending' timeAnalysis' costOptimization' =
     (let avgMonthlySpending =
            (if 0 < length (keys (monthly_spending spending'))
             then mean_numbers (values_of (monthly_spending spending'))
             else ntimes (average_order_value spending') (Fin 4));
          spendingPercentile =
            (if ngt avgMonthlySpending (Fin 30000) then Fin 90
             else if ngt avgMonthlySpending (Fin 20000) then Fin 75
             else if ngt avgMonthlySpending (Fin 15000) then Fin 60
             else if ngt avgMonthlySpending (Fin 10000) then Fin 45
             else Fin 30);
          monthlyOrderFreq =
            (if 0 < length (keys (order_frequency_trend timeAnalysis'))
             then mean_numbers (map of_count (values_of (order_frequency_trend timeAnalysis')))
             else Fin 0);
          frequencyCategory =
            (if ngt monthlyOrderFreq (Fin 15) then ''Heavy''
             else if ngt monthlyOrderFreq (Fin 8) then ''Moderate''
             else ''Light'');
          voucherScore = voucher_usage_rate spending';
          feeScore = nminus (Fin 100) (ntimes (average_fee_percentage costOptimization') (Fin 2));
          valueConsciousnessScore =
            nplus (ntimes voucherScore (Fin (6 / 10)))
              (ntimes (Math_max (Fin 0) feeScore) (Fin (4 / 10)))
      in \<lparr> spending_percentile = spendingPercentile,
           order_frequency_category = frequencyCategory,
           value_consciousness_score = valueConsciousnessScore \<rparr>)"

subsection \<open>Insights\<close>

definition spendingInsight :: "SpendingAnalytics \<Rightarrow> Insight" where
  "spendingInsight spending' =
     \<lparr> category = spending_insight,
       icon = ''<U+1F4B0>'',
       title = category_type (spending_category spending'),
       description = [Lit (category_description (spending_category spending'))],
       detailedExplanation =
         [Lit ''Your average order is <U+09F3>'', Fixed (average_order_value spending') 0,
          Lit ''. '',
          Lit (if category_type (spending_category spending') = ''Big Spender''
               then ''You enjoy premium meals and aren't afraid to spend more for quality food.''
               else if category_type (spending_category spending') = ''Medium Spender''
               then ''You balance between quality and budget, ordering moderately priced meals.''
               else ''You prefer budget-friendly options and focus on value for money.'')],
       color = category_color (spending_category spending') \<rparr>"

definition voucherInsight :: "SpendingAnalytics \<Rightarrow> Insight" where
  "voucherInsight spending' =
     (let voucherTitle =
            (if ngt (voucher_usage_rate spending') (Fin 50) then ''Smart Saver'' else ''Deal Hunter'')
      in \<lparr> category = voucher_insight,
           icon = ''<U+1F3AB>'',
           title = voucherTitle,
           description =
             [Lit ''You used vouchers '', Fixed (voucher_usage_rate spending') 0,
              Lit ''% of the time''],
           detailedExplanation =
             [Lit ''You saved a total of <U+09F3>'', Fixed (total_voucher_savings spending') 0,
              Lit '' by using vouchers on '', Fixed (voucher_usage_rate spending') 1,
              Lit ''% of your orders. That's smart shopping! Keep looking for deals to save even more.''],
           color = ''#9b59b6'' \<rparr>)"

text \<open>
  The time insight. Its four variables start as the \<^verbatim>\<open>Flexible Eater\<close> texts, and each
  of the four branches of the test of the peak hour overwrites all of them.
\<close>

definition timingInsight :: "PatternAnalytics \<Rightarrow> Insight" where
  "timingInsight patterns' =
     (let hour = peak_hour patterns'
      in if nge hour (Fin 5) \<and> nlt hour (Fin 12) then
           \<lparr> category = timing_insight, icon = ''<U+1F31E>'', title = ''Morning Person'',
             description = [Lit ''You order early in the day''],
             detailedExplanation =
               [Lit ''You usually order around '', Num hour,
                Lit '':00. You're an early bird who likes breakfast and brunch. Morning meals give you energy for the day.''],
             color = ''#3498db'' \<rparr>
         else if nge hour (Fin 12) \<and> nlt hour (Fin 17) then
           \<lparr> category = timing_insight, icon = ''<U+1F372>'', title = ''Lunch Lover'',
             description = [Lit ''You order at lunch time''],
             detailedExplanation =
               [Lit ''Your peak time is '', Num hour,
                Lit '':00. You prefer ordering during lunch hours. This is the most popular time to order food.''],
             color = ''#3498db'' \<rparr>
         else if nge hour (Fin 17) \<and> nlt hour (Fin 22) then
           \<lparr> category = timing_insight, icon = ''<U+1F306>'', title = ''Evening Eater'',
             description = [Lit ''You order for dinner''],
             detailedExplanation =
               [Lit ''You typically order around '', Num hour,
                Lit '':00. Evening is your main meal time, when you relax and enjoy dinner.''],
             color = ''#3498db'' \<rparr>
         else
           \<lparr> category = timing_insight, icon = ''<U+1F319>'', title = ''Night Owl'',
             description = [Lit ''You order late at night''],
             detailedExplanation =
               [Lit ''You order around '', Num hour,
                Lit '':00. You're a night person who gets hungry late. Late-night ordering is your thing!''],
             color = ''#3498db'' \<rparr>)"

definition loyaltyInsight :: "RestaurantAnalytics \<Rightarrow> Insight" where
  "loyaltyInsight restaurants' =
     (let topRestaurant =
            (if top_restaurant (loyalty_analysis restaurants') = [] then ''various places''
             else top_restaurant (loyalty_analysis restaurants'));
          loyaltyPct = top_restaurant_percentage (loyalty_analysis restaurants');
          loyaltyDetail =
            (if level (loyalty_analysis restaurants') = ''Super Loyal'' then
               [Fixed loyaltyPct 0, Lit ''% of your orders are from '', Lit topRestaurant,
                Lit ''. You really love this place! Having a favorite restaurant means you know what you like.'']
             else if level (loyalty_analysis restaurants') = ''Loyal'' then
               [Fixed loyaltyPct 0, Lit ''% of orders from '', Lit topRestaurant,
                Lit ''. You have some favorites but also like trying other places. Good balance!'']
             else
               [Lit ''You order from '', Count (unique_restaurants restaurants'),
                Lit '' different restaurants. You love variety and trying new places. That's adventurous!''])
      in \<lparr> category = loyalty_insight,
           icon = ''<U+2764><U+FE0F>'',
           title = level (loyalty_analysis restaurants'),
           description = [Lit (loyalty_description (loyalty_analysis restaurants'))],
           detailedExplanation = loyaltyDetail,
           color = ''#e67e22'' \<rparr>)"

text \<open>
  The array \<^verbatim>\<open>insights\<close> after its three or four \<^verbatim>\<open>push\<close>es. Five of the eight
  parameters are not read.
\<close>

definition generateInsights ::
  "SpendingAnalytics \<Rightarrow> RestaurantAnalytics \<Rightarrow> PatternAnalytics \<Rightarrow> CostOptimizationAnalytics
   \<Rightarrow> PredictiveAnalytics \<Rightarrow> AdvancedMetrics \<Rightarrow> HealthDietaryAnalytics \<Rightarrow> DiversityAnalytics
   \<Rightarrow> Insight list" where
  "generateInsights spending' restaurants' patterns' costOptimization' predictive' advanced'
     healthDietary' diversity' =
     [spendingInsight spending']
     @ (if ngt (voucher_usage_rate spending') (Fin 20) then [voucherInsight spending'] else [])
     @ [timingInsight patterns']
     @ [loyaltyInsight restaurants']"

subsection \<open>The entry point\<close>

definition getEmptyAnalytics :: FullAnalytics where
  "getEmptyAnalytics =
     \<lparr> spending =
         \<lparr> total_spent = Fin 0, average_order_value = Fin 0, median_order_value = Fin 0,
           total_delivery_fees = Fin 0, total_service_fees = Fin 0, total_voucher_savings = Fin 0,
           voucher_usage_rate = Fin 0, monthly_spending = [],
           spending_category =
             \<lparr> category_type = ''N/A'', category_description = ''No data'',
               category_color = ''gray'' \<rparr> \<rparr>,
       restaurants =
         \<lparr> top_restaurants_by_orders = [], unique_restaurants = 0,
           loyalty_analysis =
             \<lparr> level = ''N/A'', loyalty_description = ''No data'', top_restaurant = [],
               top_restaurant_percentage = Fin 0 \<rparr> \<rparr>,
       food =
         \<lparr> top_food_items = [], food_categories = [], average_items_per_order = Fin 0,
           total_unique_items = 0 \<rparr>,
       patterns =
         \<lparr> peak_hour = Fin 0, peak_day = [],
           weekend_vs_weekday =
             \<lparr> weekend_orders = 0, weekday_orders = 0, weekend_percentage = Fin 0 \<rparr>,
           hourly_patterns = [] \<rparr>,
       payments = \<lparr> payment_method_counts = [], preferred_payment_method = ''N/A'' \<rparr>,
       prices =
         \<lparr> average_price_per_item = Fin 0,
           price_range = \<lparr> price_min = Fin 0, price_max = Fin 0 \<rparr>,
           restaurant_value_scores = [], discount_effectiveness = Fin 0,
           price_trend_over_time = [] \<rparr>,
       behavior =
         \<lparr> order_size_distribution = \<lparr> small = 0, medium = 0, large = 0 \<rparr>,
           average_basket_size = Fin 0,
           addon_frequency = \<lparr> drinks_percentage = Fin 0, desserts_percentage = Fin 0 \<rparr>,
           reorder_patterns = \<lparr> exact_reorder_count = 0, similar_items_frequency = [] \<rparr> \<rparr>,
       diversity =
         \<lparr> cuisine_switching_rate = Fin 0, new_restaurants_per_month = [],
           restaurant_discovery_rate = Fin 0, cuisine_preference_evolution = [],
           variety_score = Fin 0 \<rparr>,
       timeAnalysis =
         \<lparr> order_frequency_trend = [], average_days_between_orders = Fin 0,
           spending_by_day_of_week = [], seasonal_patterns = [],
           time_gap_distribution =
             \<lparr> same_day = 0, within_week = 0, within_month = 0, over_month = 0 \<rparr>,
           ordering_acceleration = Fin 0 \<rparr>,
       costOptimization =
         \<lparr> fee_to_food_ratio = Fin 0, average_fee_percentage = Fin 0, optimal_order_value = Fin 0,
           voucher_impact =
             \<lparr> avg_savings_with_voucher = Fin 0, avg_order_value_with_voucher = Fin 0,
               avg_order_value_without_voucher = Fin 0 \<rparr>,
           delivery_fee_variance = \<lparr> fee_min = Fin 0, fee_max = Fin 0, fee_avg = Fin 0 \<rparr>,
           potential_savings = Fin 0 \<rparr>,
       healthDietary =
         \<lparr> healthy_vs_indulgent_ratio = Fin 0,
           meal_type_distribution = \<lparr> breakfast = 0, lunch = 0, dinner = 0, snack = 0 \<rparr>,
           drink_to_food_ratio = Fin 0, healthy_food_percentage = Fin 0,
           indulgent_food_percentage = Fin 0, category_health_scores = [] \<rparr>,
       predictive =
         \<lparr> forecasted_monthly_spending = Fin 0, spending_trend = stable,
           trend_percentage = Fin 0, predicted_next_order_days = Fin 0,
           estimated_annual_spending = Fin 0 \<rparr>,
       advanced =
         \<lparr> customer_lifetime_value = Fin 0, order_efficiency_score = Fin 0,
           brand_loyalty_score = Fin 0, spontaneity_index = Fin 0, deal_dependency_ratio = Fin 0,
           churn_risk_score = Fin 0,
           exploration_vs_exploitation =
             \<lparr> exploration_percentage = Fin 0, exploitation_percentage = Fin 0 \<rparr> \<rparr>,
       comparative =
         \<lparr> spending_percentile = Fin 50, order_frequency_category = ''N/A'',
           value_consciousness_score = Fin 0 \<rparr>,
       insights = [] \<rparr>"

text \<open>The filter of \<^verbatim>\<open>deliveredOrders\<close>.\<close>

definition isDelivered :: "Order \<Rightarrow> bool" where
  "isDelivered order =
     (\<not> str_includes (toLowerCase (status order)) ''cancel''
      \<and> \<not> str_includes (toLowerCase (status order)) ''fail'')"

text \<open>
  \<^verbatim>\<open>[...xs].sort(cmp)\<close>. The sort of the language is stable, so for a consistent
  comparator its result is the one computed here by insertion. A comparator that answers
  \<open>NaN\<close> (an Invalid Date) is read as answering zero, and the order of the result is then
  left to the implementation: the one computed here is one of those allowed.
\<close>

fun insertSorted :: "('a \<Rightarrow> 'a \<Rightarrow> number) \<Rightarrow> 'a \<Rightarrow> 'a list \<Rightarrow> 'a list" where
  "insertSorted cmp x [] = [x]"
| "insertSorted cmp x (y # ys) =
     (if ngt (cmp x y) (Fin 0) then y # insertSorted cmp x ys else x # y # ys)"

definition sortWith :: "('a \<Rightarrow> 'a \<Rightarrow> number) \<Rightarrow> 'a list \<Rightarrow> 'a list" where
  "sortWith cmp xs = foldr (insertSorted cmp) xs []"

text \<open>\<^verbatim>\<open>(a, b) => new Date(a.date).getTime() - new Date(b.date).getTime()\<close>\<close>

definition compareDates :: "platform \<Rightarrow> Order \<Rightarrow> Order \<Rightarrow> number" where
  "compareDates p a b =
     nminus (of_date_field (getTime p (date a))) (of_date_field (getTime p (date b)))"

definition analyze :: "platform \<Rightarrow> Order list \<Rightarrow> error + FullAnalytics" where
  "analyze p orders =
     (let deliveredOrders = filter isDelivered orders
      in if length deliveredOrders = 0 then Inr getEmptyAnalytics
         else
           let sortedOrders = sortWith (compareDates p) deliveredOrders;
               spending' = analyzeSpending p deliveredOrders;
               restaurants' = analyzeRestaurants deliveredOrders;
               food' = analyzeFood deliveredOrders;
               patterns' = analyzePatterns p deliveredOrders;
               payments' = analyzePayments deliveredOrders;
               prices' = analyzePrices p sortedOrders;
               behavior' = analyzeOrderBehavior deliveredOrders
           in case analyzeDiversity p sortedOrders of
                Inl e \<Rightarrow> Inl e
              | Inr diversity' \<Rightarrow>
                  (case analyzeTimePatterns p sortedOrders of
                     Inl e \<Rightarrow> Inl e
                   | Inr timeAnalysis' \<Rightarrow>
                       let costOptimization' = analyzeCostOptimization deliveredOrders;
                           healthDietary' = analyzeHealthDietary p deliveredOrders patterns';
                           predictive' = analyzePredictive p sortedOrders spending' timeAnalysis';
                           advanced' =
                             analyzeAdvancedMetrics p sortedOrders restaurants' timeAnalysis'
                               spending';
                           comparative' = analyzeComparative spending' timeAnalysis' costOptimization';
                           insights' =
                             generateInsights spending' restaurants' patterns' costOptimization'
                               predictive' advanced' healthDietary' diversity'
                       in Inr \<lparr> spending = spending', restaurants = restaurants', food = food',
                                patterns = patterns', payments = payments', prices = prices',
                                behavior = behavior', diversity = diversity',
                                timeAnalysis = timeAnalysis', costOptimization = costOptimization',
                                healthDietary = healthDietary', predictive = predictive',
                                advanced = advanced', comparative = comparative',
                                insights = insights' \<rparr>))"

subsection \<open>Example orders\<close>

definition an_order :: "string \<Rightarrow> rat \<Rightarrow> string \<Rightarrow> OrderItem list \<Rightarrow> Order" where
  "an_order st tv d its =
     \<lparr> order_id = ''o1'', order_code = ''c1'', restaurant_name = ''A'', total_value = tv,
       subtotal = tv, delivery_fee = 0, service_fee = 0, voucher_discount = 0, status = st,
       date = d, items = its, payment_method = ''Card'' \<rparr>"

definition order_on :: "string \<Rightarrow> Order" where
  "order_on d = an_order ''Delivered'' 100 d []"

definition burger :: OrderItem where
  "burger = \<lparr> name = ''Burger'', quantity = 1, price = 200 \<rparr>"

definition cancelled_bad_date :: Order where
  "cancelled_bad_date = an_order ''Order Cancelled'' 100 ''not a date'' []"

definition delivered_bad_date :: Order where
  "delivered_bad_date = an_order ''Delivered'' 100 ''not a date'' []"

definition january_100_february_150 :: "Order list" where
  "january_100_february_150 =
     [an_order ''Delivered'' 100 ''2024-01-15'' [], an_order ''Delivered'' 150 ''2024-02-15'' []]"

definition february_150_january_100 :: "Order list" where
  "february_150_january_100 =
     [an_order ''Delivered'' 150 ''2024-02-15'' [], an_order ''Delivered'' 100 ''2024-01-15'' []]"

subsection \<open>Reference definitions\<close>

text \<open>
  The trend in the words of the specification, on rationals: the ordinary least squares
  slope of the values against their index, over the mean of the values, in percent (zero
  for fewer than two values and for a zero mean).
\<close>

definition mean_of :: "rat list \<Rightarrow> rat" where
  "mean_of ys = sum_list ys / of_nat (length ys)"

definition ols_slope :: "rat list \<Rightarrow> rat" where
  "ols_slope ys =
     (let n = length ys;
          xbar = mean_of (map of_nat [0 ..< n]);
          ybar = mean_of ys
      in sum_list (map (\<lambda>i. (of_nat i - xbar) * (ys ! i - ybar)) [0 ..< n])
         / sum_list (map (\<lambda>i. (of_nat i - xbar) * (of_nat i - xbar)) [0 ..< n]))"

definition raw_trend :: "rat list \<Rightarrow> rat" where
  "raw_trend ys =
     (if length ys < 2 then 0
      else if mean_of ys = 0 then 0
      else ols_slope ys / mean_of ys * 100)"

fun is_finite :: "number \<Rightarrow> bool" where
  "is_finite (Fin r) = True"
| "is_finite x = False"

fun fin_value :: "number \<Rightarrow> rat" where
  "fin_value (Fin r) = r"
| "fin_value x = 0"

text \<open>
  A month key is written with digits and hyphens (\<^verbatim>\<open>YYYY-MM\<close>).
\<close>

definition month_key :: "string \<Rightarrow> bool" where
  "month_key k = list_all (\<lambda>c. c = CHR ''-'' \<or> is_digit c) k"

text \<open>
  The recent monthly totals in the words of the specification: the monthly totals in
  ascending order of their month key, the last six of them (all of them when there are
  fewer), read as rationals.
\<close>

definition recent_monthly_totals :: "number obj \<Rightarrow> rat list" where
  "recent_monthly_totals m =
     map (\<lambda>e. fin_value (snd e)) (drop (length m - 6) (sort_key fst m))"

text \<open>The average that gives the weight \<open>i + 1\<close> to the \<open>i\<close>-th value.\<close>

definition weighted_average :: "rat list \<Rightarrow> rat" where
  "weighted_average ys =
     sum_list (map (\<lambda>i. of_nat (i + 1) * ys ! i) [0 ..< length ys])
     / sum_list (map (\<lambda>i. of_nat (i + 1)) [0 ..< length ys])"

text \<open>
  The number of months from the month of the first order to the month of the last one, both
  included, and one at least; the two arguments are local times.
\<close>

definition active_months :: "int \<Rightarrow> int \<Rightarrow> int" where
  "active_months t0 t1 =
     max 1 ((YearFromTime t1 - YearFromTime t0) * 12 + (MonthFromTime t1 - MonthFromTime t0) + 1)"

text \<open>
  The base forecast in the words of the specification, from the recent monthly totals, the
  total spent and the number of active months: seven tenths of the weighted recent average
  (the lifetime average when there is no monthly total) and three tenths of the lifetime
  average, which is the total spent over the number of active months.
\<close>

definition base_forecast :: "rat list \<Rightarrow> rat \<Rightarrow> int \<Rightarrow> rat" where
  "base_forecast ys spent months =
     (let lifetime = spent / of_int months;
          recent = (if ys = [] then lifetime else weighted_average ys)
      in 7 / 10 * recent + 3 / 10 * lifetime)"

section \<open>Properties\<close>

subsection \<open>Sums\<close>

lemma fold_nplus_Fin:
  "fold (\<lambda>x acc. nplus acc x) (map (\<lambda>x. Fin (f x)) xs) (Fin a) = Fin (a + sum_list (map f xs))"
  by (induction xs arbitrary: a) (simp_all add: add.assoc)

lemma sumBy_Fin: "sumBy f xs = Fin (sum_list (map f xs))"
  by (simp add: sumBy_def sum_numbers_def fold_nplus_Fin)

lemma fold_quantity:
  "fold (\<lambda>item sum. sum + quantity item) its a = a + sum_list (map quantity its)"
  by (induction its arbitrary: a) (simp_all add: add.assoc)

lemma totalQuantity_sum: "totalQuantity its = sum_list (map quantity its)"
  by (simp add: totalQuantity_def fold_quantity)

subsection \<open>Weekend orders\<close>

text \<open>
  Claim C1. The claim: an order is counted in \<^verbatim>\<open>weekend_orders\<close> exactly when the local
  weekday of its date is Saturday or Sunday. The code counts the orders whose local
  weekday is Friday (5) or Saturday (6): an order of Sunday 2024-01-07 is not counted and an
  order of Friday 2024-01-05 is. The two orders of the claim's example, of Saturday
  2024-01-06 and Tuesday 2024-01-09, do give one weekend order, one weekday order and
  fifty percent.
\<close>

theorem analyzePatterns_weekend_is_friday_saturday:
  "weekend_orders (weekend_vs_weekday (analyzePatterns p orders))
     = length (filter (\<lambda>order. getDay p (date order) = Some 5 \<or> getDay p (date order) = Some 6)
                 orders)
   \<and> getDay utc ''2024-01-07'' = Some 0
   \<and> weekend_orders (weekend_vs_weekday (analyzePatterns utc [order_on ''2024-01-07''])) = 0
   \<and> getDay utc ''2024-01-05'' = Some 5
   \<and> weekend_orders (weekend_vs_weekday (analyzePatterns utc [order_on ''2024-01-05''])) = 1
   \<and> weekend_vs_weekday (analyzePatterns utc [order_on ''2024-01-06'', order_on ''2024-01-09''])
       = \<lparr> weekend_orders = 1, weekday_orders = 1, weekend_percentage = Fin 50 \<rparr>"
proof -
  have general: "weekend_orders (weekend_vs_weekday (analyzePatterns p orders))
     = length (filter (\<lambda>order. getDay p (date order) = Some 5 \<or> getDay p (date order) = Some 6)
                 orders)"
  proof -
    have "isWeekendOrder p
            = (\<lambda>order. getDay p (date order) = Some 5 \<or> getDay p (date order) = Some 6)"
      by (simp add: fun_eq_iff isWeekendOrder_def Let_def)
    then show ?thesis
      by (simp add: analyzePatterns_def Let_def)
  qed
  have sunday: "getDay utc ''2024-01-07'' = Some 0"
    by code_simp
  have sunday_count:
    "weekend_orders (weekend_vs_weekday (analyzePatterns utc [order_on ''2024-01-07''])) = 0"
    by code_simp
  have friday: "getDay utc ''2024-01-05'' = Some 5"
    by code_simp
  have friday_count:
    "weekend_orders (weekend_vs_weekday (analyzePatterns utc [order_on ''2024-01-05''])) = 1"
    by code_simp
  have pair:
    "weekend_vs_weekday (analyzePatterns utc [order_on ''2024-01-06'', order_on ''2024-01-09''])
       = \<lparr> weekend_orders = 1, weekday_orders = 1, weekend_percentage = Fin 50 \<rparr>"
    by code_simp
  from general sunday sunday_count friday friday_count pair show ?thesis
    by blast
qed

subsection \<open>Spending categories\<close>

text \<open>
  Claim C2, as stated, at its own example: an average order value of exactly 250 is not
  classified as a Medium Spender.
\<close>

theorem categorizeSpending_250_counterexample:
  "category_type (categorizeSpending (Fin 250)) \<noteq> ''Medium Spender''"
  by (simp add: categorizeSpending_def ngt_def)

text \<open>
  Claim C2, amended. The thresholds are strict and tested in order: above 400 a Big
  Spender, above 250 and up to 400 a Medium Spender, up to 250 a Light Spender. An average of
  exactly 250 is a Light Spender, 250.01 and exactly 400 are Medium Spenders, 400.01 is a
  Big Spender.
\<close>

theorem categorizeSpending_thresholds:
  "(category_type (categorizeSpending (Fin a)) = ''Big Spender'' \<longleftrightarrow> 400 < a)
   \<and> (category_type (categorizeSpending (Fin a)) = ''Medium Spender'' \<longleftrightarrow> 250 < a \<and> a \<le> 400)
   \<and> (category_type (categorizeSpending (Fin a)) = ''Light Spender'' \<longleftrightarrow> a \<le> 250)
   \<and> category_type (categorizeSpending (Fin 250)) = ''Light Spender''
   \<and> category_type (categorizeSpending (Fin (25001 / 100))) = ''Medium Spender''
   \<and> category_type (categorizeSpending (Fin 400)) = ''Medium Spender''
   \<and> category_type (categorizeSpending (Fin (40001 / 100))) = ''Big Spender''"
  by (simp add: categorizeSpending_def ngt_def)

theorem categorizeSpending_thresholds_witness:
  "category_type (categorizeSpending (Fin 300)) = ''Medium Spender'' \<and> (250::rat) < 300
   \<and> (300::rat) \<le> 400"
  using categorizeSpending_thresholds [of 300] by simp

subsection \<open>The median\<close>

lemma median_odd:
  assumes "odd (length vals)"
  shows "\<exists>lo m hi. sort vals = lo @ m # hi \<and> length lo = length hi \<and> calculateMedian vals = m"
proof -
  let ?s = "sort vals" and ?k = "length vals div 2"
  from assms have n: "length vals = 2 * ?k + 1" by presburger
  then have k: "?k < length ?s" by simp
  have "?s = take ?k ?s @ ?s ! ?k # drop (Suc ?k) ?s"
    using k by (rule id_take_nth_drop)
  moreover have "length (take ?k ?s) = length (drop (Suc ?k) ?s)"
    using n by simp
  moreover have "calculateMedian vals = ?s ! ?k"
    using assms n by (auto simp: calculateMedian_def Let_def)
  ultimately show ?thesis by blast
qed

lemma median_even:
  assumes "even (length vals)" and "vals \<noteq> []"
  shows "\<exists>lo a b hi. sort vals = lo @ a # b # hi \<and> length lo = length hi
            \<and> calculateMedian vals = (a + b) / 2"
proof -
  let ?s = "sort vals" and ?k = "length vals div 2"
  from assms have n: "length vals = 2 * ?k" and pos: "0 < ?k"
    by (presburger, cases vals, auto)
  have k1: "?k - 1 < length ?s" and k: "?k < length ?s"
    using n pos by simp_all
  have "?s = take (?k - 1) ?s @ ?s ! (?k - 1) # drop (Suc (?k - 1)) ?s"
    using k1 by (rule id_take_nth_drop)
  moreover have "drop (Suc (?k - 1)) ?s = ?s ! ?k # drop (Suc ?k) ?s"
    using k pos by (simp add: Cons_nth_drop_Suc)
  ultimately have "?s = take (?k - 1) ?s @ ?s ! (?k - 1) # ?s ! ?k # drop (Suc ?k) ?s"
    by simp
  moreover have "length (take (?k - 1) ?s) = length (drop (Suc ?k) ?s)"
    using n pos by simp
  moreover have "calculateMedian vals = (?s ! (?k - 1) + ?s ! ?k) / 2"
    using assms n by (auto simp: calculateMedian_def Let_def)
  ultimately show ?thesis by blast
qed

text \<open>
  Claim C7. For a list of values that is not empty, \<^verbatim>\<open>calculateMedian\<close> is the middle
  element of the ascending sort when the length is odd (as many elements before it as after
  it) and the mean of the two middle elements when the length is even; the median of
  100, 200, 300 is 200 and the median of 100, 200, 300, 400 is 250.
\<close>

theorem calculateMedian_sorted_middle:
  assumes "vals \<noteq> []"
  shows "(odd (length vals) \<longrightarrow>
            (\<exists>lo m hi. sort vals = lo @ m # hi \<and> length lo = length hi
                        \<and> calculateMedian vals = m))
         \<and> (even (length vals) \<longrightarrow>
            (\<exists>lo a b hi. sort vals = lo @ a # b # hi \<and> length lo = length hi
                          \<and> calculateMedian vals = (a + b) / 2))
         \<and> calculateMedian [100, 200, 300] = 200
         \<and> calculateMedian [100, 200, 300, 400] = 250"
proof -
  have "calculateMedian [100, 200, 300] = 200"
    by (simp add: calculateMedian_def)
  moreover have "calculateMedian [100, 200, 300, 400] = 250"
    by (simp add: calculateMedian_def)
  ultimately show ?thesis
    using median_odd [of vals] median_even [of vals] assms by blast
qed

theorem calculateMedian_sorted_middle_witness:
  "[300, 100, 200 :: rat] \<noteq> [] \<and> odd (length [300, 100, 200 :: rat])
   \<and> (\<exists>lo m hi. sort [300, 100, 200 :: rat] = lo @ m # hi \<and> length lo = length hi
                 \<and> calculateMedian [300, 100, 200] = m)
   \<and> calculateMedian [300, 100, 200] = 200"
proof -
  have "calculateMedian [300, 100, 200] = 200"
    by (simp add: calculateMedian_def)
  then show ?thesis
    using calculateMedian_sorted_middle [of "[300, 100, 200]"] by simp
qed

subsection \<open>The average order value\<close>

text \<open>
  Claim C9. For a list of orders that is not empty, the total spent is the sum of the
  \<^verbatim>\<open>total_value\<close> fields and, in exact arithmetic, the average order value times the number
  of orders is the total spent.
\<close>

theorem analyzeSpending_average_times_count:
  "orders \<noteq> [] \<Longrightarrow>
   total_spent (analyzeSpending p orders) = Fin (sum_list (map total_value orders))
   \<and> ntimes (average_order_value (analyzeSpending p orders)) (of_count (length orders))
       = total_spent (analyzeSpending p orders)"
  by (simp add: analyzeSpending_def Let_def sumBy_Fin of_count_def)

theorem analyzeSpending_average_times_count_witness:
  "[an_order ''Delivered'' 300 ''2024-01-05'' [], an_order ''Delivered'' 200 ''2024-01-12'' []] \<noteq> []
   \<and> total_spent (analyzeSpending utc
        [an_order ''Delivered'' 300 ''2024-01-05'' [], an_order ''Delivered'' 200 ''2024-01-12'' []])
       = Fin 500
   \<and> ntimes (average_order_value (analyzeSpending utc
        [an_order ''Delivered'' 300 ''2024-01-05'' [], an_order ''Delivered'' 200 ''2024-01-12'' []]))
        (Fin 2) = Fin 500"
  using analyzeSpending_average_times_count
    [of "[an_order ''Delivered'' 300 ''2024-01-05'' [], an_order ''Delivered'' 200 ''2024-01-12'' []]"
        utc]
  by (simp add: an_order_def of_count_def)

subsection \<open>The distribution of order sizes\<close>

lemma fold_sizeStep:
  "fold sizeStep orders (s, m, l) =
     (s + length (filter (\<lambda>order. totalQuantity (items order) \<le> 2) orders),
      m + length (filter (\<lambda>order. 2 < totalQuantity (items order)
                                \<and> totalQuantity (items order) \<le> 5) orders),
      l + length (filter (\<lambda>order. 5 < totalQuantity (items order)) orders))"
  by (induction orders arbitrary: s m l) (auto simp: sizeStep_def Let_def)

lemma three_way_partition:
  "length (filter (\<lambda>x. f x \<le> (2::rat)) xs) + length (filter (\<lambda>x. 2 < f x \<and> f x \<le> 5) xs)
     + length (filter (\<lambda>x. 5 < f x) xs) = length xs"
  by (induction xs) auto

text \<open>
  Claim C10. The three counters of \<^verbatim>\<open>order_size_distribution\<close> count the orders whose
  summed item quantity is at most 2, above 2 and at most 5, and above 5; every order is in
  exactly one of the three classes, so the counters add up to the number of orders.
\<close>

theorem order_size_distribution_partition:
  "small (order_size_distribution (analyzeOrderBehavior orders))
     = length (filter (\<lambda>order. sum_list (map quantity (items order)) \<le> 2) orders)
   \<and> medium (order_size_distribution (analyzeOrderBehavior orders))
     = length (filter (\<lambda>order. 2 < sum_list (map quantity (items order))
                              \<and> sum_list (map quantity (items order)) \<le> 5) orders)
   \<and> large (order_size_distribution (analyzeOrderBehavior orders))
     = length (filter (\<lambda>order. 5 < sum_list (map quantity (items order))) orders)
   \<and> small (order_size_distribution (analyzeOrderBehavior orders))
     + medium (order_size_distribution (analyzeOrderBehavior orders))
     + large (order_size_distribution (analyzeOrderBehavior orders)) = length orders"
  using three_way_partition [of "\<lambda>order. sum_list (map quantity (items order))" orders]
  by (simp add: analyzeOrderBehavior_def Let_def fold_sizeStep totalQuantity_sum)

theorem order_size_distribution_partition_witness:
  "order_size_distribution (analyzeOrderBehavior
     [an_order ''Delivered'' 100 ''2024-01-05'' [burger],
      an_order ''Delivered'' 100 ''2024-01-06'' [burger, burger, burger],
      an_order ''Delivered'' 100 ''2024-01-07'' [burger\<lparr>quantity := 6\<rparr>]])
   = \<lparr> small = 1, medium = 1, large = 1 \<rparr>"
proof -
  let ?os = "[an_order ''Delivered'' 100 ''2024-01-05'' [burger],
      an_order ''Delivered'' 100 ''2024-01-06'' [burger, burger, burger],
      an_order ''Delivered'' 100 ''2024-01-07'' [burger\<lparr>quantity := 6\<rparr>]]"
  have "small (order_size_distribution (analyzeOrderBehavior ?os)) = 1
        \<and> medium (order_size_distribution (analyzeOrderBehavior ?os)) = 1
        \<and> large (order_size_distribution (analyzeOrderBehavior ?os)) = 1"
    using order_size_distribution_partition [of ?os]
    by (simp add: an_order_def burger_def)
  then show ?thesis
    by (cases "order_size_distribution (analyzeOrderBehavior ?os)") simp
qed

subsection \<open>The insights\<close>

text \<open>
  Claim C8. \<^verbatim>\<open>generateInsights\<close> emits the spending insight first, titled by the
  spending category; then a voucher insight exactly when the voucher usage rate is above 20,
  titled Smart Saver when the rate is above 50 and Deal Hunter otherwise; then one timing
  insight; then one loyalty insight.
\<close>

theorem generateInsights_emission_order:
  "map category (generateInsights sp rs ps co pr ad he dv)
     = (if ngt (voucher_usage_rate sp) (Fin 20)
        then [spending_insight, voucher_insight, timing_insight, loyalty_insight]
        else [spending_insight, timing_insight, loyalty_insight])
   \<and> title (hd (generateInsights sp rs ps co pr ad he dv)) = category_type (spending_category sp)
   \<and> (ngt (voucher_usage_rate sp) (Fin 20) \<longrightarrow>
        title (generateInsights sp rs ps co pr ad he dv ! 1)
          = (if ngt (voucher_usage_rate sp) (Fin 50) then ''Smart Saver'' else ''Deal Hunter''))"
  by (simp add: generateInsights_def spendingInsight_def voucherInsight_def timingInsight_def
        loyaltyInsight_def Let_def)

theorem generateInsights_emission_order_witness:
  "ngt (voucher_usage_rate ((spending getEmptyAnalytics)\<lparr>voucher_usage_rate := Fin 30\<rparr>)) (Fin 20)
   \<and> map category
       (generateInsights ((spending getEmptyAnalytics)\<lparr>voucher_usage_rate := Fin 30\<rparr>)
          (restaurants getEmptyAnalytics) (patterns getEmptyAnalytics)
          (costOptimization getEmptyAnalytics) (predictive getEmptyAnalytics)
          (advanced getEmptyAnalytics) (healthDietary getEmptyAnalytics)
          (diversity getEmptyAnalytics))
       = [spending_insight, voucher_insight, timing_insight, loyalty_insight]
   \<and> title
       (generateInsights ((spending getEmptyAnalytics)\<lparr>voucher_usage_rate := Fin 30\<rparr>)
          (restaurants getEmptyAnalytics) (patterns getEmptyAnalytics)
          (costOptimization getEmptyAnalytics) (predictive getEmptyAnalytics)
          (advanced getEmptyAnalytics) (healthDietary getEmptyAnalytics)
          (diversity getEmptyAnalytics) ! 1)
       = ''Deal Hunter''"
  using generateInsights_emission_order
    [of "(spending getEmptyAnalytics)\<lparr>voucher_usage_rate := Fin 30\<rparr>"
        "restaurants getEmptyAnalytics" "patterns getEmptyAnalytics"
        "costOptimization getEmptyAnalytics" "predictive getEmptyAnalytics"
        "advanced getEmptyAnalytics" "healthDietary getEmptyAnalytics"
        "diversity getEmptyAnalytics"]
  by (simp add: ngt_def)

text \<open>
  The insights of a completed analysis are those of \<^verbatim>\<open>generateInsights\<close> on its own
  facets.
\<close>

lemma analyze_insights:
  assumes "analyze p orders = Inr r" and "filter isDelivered orders \<noteq> []"
  shows "insights r = generateInsights (spending r) (restaurants r) (patterns r) (costOptimization r)
           (predictive r) (advanced r) (healthDietary r) (diversity r)"
proof -
  let ?d = "filter isDelivered orders"
  let ?s = "sortWith (compareDates p) ?d"
  obtain dv where dv: "analyzeDiversity p ?s = Inr dv"
    using assms by (cases "analyzeDiversity p ?s") (simp_all add: analyze_def Let_def)
  obtain ta where ta: "analyzeTimePatterns p ?s = Inr ta"
    using assms dv by (cases "analyzeTimePatterns p ?s") (simp_all add: analyze_def Let_def)
  from assms dv ta show ?thesis
    by (auto simp: analyze_def Let_def)
qed

subsection \<open>Objects and counts\<close>

lemma map_fst_replace_value: "map fst (replace_value k v m) = map fst m"
  by (induction m) auto

lemma map_of_replace_value:
  "map_of m k \<noteq> None \<Longrightarrow> map_of (replace_value k v m) = (map_of m)(k \<mapsto> v)"
  by (induction m) (auto simp: fun_eq_iff)

lemma in_fstI: "(a, b) \<in> set m \<Longrightarrow> a \<in> fst ` set m"
  by force

lemma set_insert_index: "set (insert_index n k v m) = insert (k, v) (set m)"
  by (induction m) (auto split: option.splits if_splits)

lemma set_fst_insert_index: "fst ` set (insert_index n k v m) = insert k (fst ` set m)"
  by (simp add: set_insert_index)

lemma distinct_insert_index:
  "k \<notin> set (map fst m) \<Longrightarrow> distinct (map fst m) \<Longrightarrow> distinct (map fst (insert_index n k v m))"
  by (induction m) (auto simp: set_fst_insert_index split: option.splits dest: in_fstI)

lemma map_of_insert_index:
  "k \<notin> set (map fst m) \<Longrightarrow> map_of (insert_index n k v m) = (map_of m)(k \<mapsto> v)"
  by (induction m) (auto simp: fun_eq_iff split: option.splits)

lemma map_of_None_iff: "map_of m k = None \<longleftrightarrow> k \<notin> set (map fst m)"
  by (simp add: map_of_eq_None_iff)

lemma map_of_obj_set: "map_of (obj_set m k v) = (map_of m)(k \<mapsto> v)"
proof (cases "map_of m k")
  case None
  then have notin: "k \<notin> set (map fst m)"
    by (simp add: map_of_eq_None_iff)
  show ?thesis
  proof (cases "array_index k")
    case None' : None
    have "map_of (m @ [(k, v)]) x = ((map_of m)(k \<mapsto> v)) x" for x
    proof (cases "x = k")
      case True
      then show ?thesis using None by (simp add: map_add_def)
    next
      case False
      then show ?thesis by (cases "map_of m x") (simp_all add: map_add_def)
    qed
    then show ?thesis
      using None None' by (simp add: obj_set_def fun_eq_iff del: map_of_append)
  next
    case (Some n)
    then show ?thesis
      using None notin by (simp add: obj_set_def map_of_insert_index)
  qed
next
  case (Some c)
  then show ?thesis
    by (simp add: obj_set_def map_of_replace_value)
qed

lemma distinct_obj_set: "distinct (map fst m) \<Longrightarrow> distinct (map fst (obj_set m k v))"
  by (auto simp: obj_set_def map_fst_replace_value distinct_insert_index map_of_None_iff
      split: option.splits)

lemma fold_count_distinct:
  "distinct (map fst acc) \<Longrightarrow>
   distinct (map fst (fold (\<lambda>k acc. obj_set acc k (case obj_get acc k of Some c \<Rightarrow> c + 1 | None \<Rightarrow> 1)) ks acc))"
  by (induction ks arbitrary: acc) (simp_all add: distinct_obj_set)

lemma fold_count_map_of:
  "map_of (fold (\<lambda>k acc. obj_set acc k (case obj_get acc k of Some c \<Rightarrow> c + 1 | None \<Rightarrow> 1)) ks acc) k
     = (if k \<in> set ks \<or> map_of acc k \<noteq> None
        then Some (count_list ks k + (case map_of acc k of Some c \<Rightarrow> c | None \<Rightarrow> 0))
        else None)"
  by (induction ks arbitrary: acc) (auto simp: map_of_obj_set obj_get_def split: option.splits)

lemma distinct_countBy: "distinct (map fst (countBy ks))"
  by (simp add: countBy_def fold_count_distinct)

lemma map_of_countBy:
  "map_of (countBy ks) k = (if k \<in> set ks then Some (count_list ks k) else None)"
  by (simp add: countBy_def fold_count_map_of)

lemma count_values_distinct:
  assumes "distinct (map fst al)"
  shows "length (filter P (map snd al)) = card {k. \<exists>v. map_of al k = Some v \<and> P v}"
  using assms
proof (induction al)
  case Nil
  then show ?case by simp
next
  case (Cons kv al)
  obtain k v where kv: "kv = (k, v)" by (cases kv)
  let ?S = "{k'. \<exists>v'. map_of al k' = Some v' \<and> P v'}"
  let ?T = "{k'. \<exists>v'. map_of (kv # al) k' = Some v' \<and> P v'}"
  from Cons.prems kv have notin: "k \<notin> fst ` set al" and d: "distinct (map fst al)"
    by auto
  have sub: "?S \<subseteq> fst ` set al"
    by (auto dest: map_of_SomeD in_fstI)
  then have fin: "finite ?S"
    by (rule finite_subset) simp
  have knot: "k \<notin> ?S"
    using sub notin by blast
  have IH: "length (filter P (map snd al)) = card ?S"
    using Cons.IH [OF d] .
  show ?case
  proof (cases "P v")
    case True
    have "?T = insert k ?S"
      using True kv knot by auto
    moreover have "card (insert k ?S) = Suc (card ?S)"
      using fin knot by (rule card_insert_disjoint)
    ultimately have "card ?T = Suc (card ?S)"
      by (simp only:)
    moreover have "length (filter P (map snd (kv # al))) = Suc (length (filter P (map snd al)))"
      using True kv by simp
    ultimately show ?thesis
      using IH by (simp only:)
  next
    case False
    have "?T = ?S"
      using False kv knot by auto
    moreover have "length (filter P (map snd (kv # al))) = length (filter P (map snd al))"
      using False kv by simp
    ultimately show ?thesis
      using IH by (simp only:)
  qed
qed

lemma repeated_keys_countBy:
  "{k. \<exists>v. map_of (countBy ks) k = Some v \<and> 1 < v} = {s. 1 < count_list ks s}"
proof (rule set_eqI)
  fix k
  show "k \<in> {k. \<exists>v. map_of (countBy ks) k = Some v \<and> 1 < v} \<longleftrightarrow> k \<in> {s. 1 < count_list ks s}"
  proof (cases "k \<in> set ks")
    case True
    then show ?thesis by (simp add: map_of_countBy)
  next
    case False
    then have "count_list ks k = 0" by simp
    then show ?thesis using False by (simp add: map_of_countBy)
  qed
qed

subsection \<open>Invalid dates\<close>

lemma isoMonth_None: "Date_parse p s = None \<Longrightarrow> isoMonth p s = Inl (RangeError ''Invalid time value'')"
  by (simp add: isoMonth_def toISOString_def)

lemma isoMonth_Inl: "isoMonth p s = Inl e \<Longrightarrow> e = RangeError ''Invalid time value''"
  by (auto simp: isoMonth_def toISOString_def Let_def split: option.splits sum.splits)

lemma traverse_isoMonth_Inl:
  "traverse (\<lambda>order. isoMonth p (date order)) xs = Inl e \<Longrightarrow> e = RangeError ''Invalid time value''"
  by (induction xs arbitrary: e) (auto split: sum.splits dest: isoMonth_Inl)

lemma traverse_isoMonth_fails:
  "x \<in> set xs \<Longrightarrow> Date_parse p (date x) = None \<Longrightarrow>
   traverse (\<lambda>order. isoMonth p (date order)) xs = Inl (RangeError ''Invalid time value'')"
proof (induction xs)
  case Nil
  then show ?case by simp
next
  case (Cons y ys)
  show ?case
  proof (cases "isoMonth p (date y)")
    case (Inl e)
    then show ?thesis using isoMonth_Inl [of p "date y" e] by simp
  next
    case (Inr m)
    then have "x \<noteq> y" using Cons.prems isoMonth_None [of p "date y"] by auto
    then have "x \<in> set ys" using Cons.prems by simp
    then show ?thesis using Cons Inr by simp
  qed
qed

lemma newRestaurants_Inl:
  "newRestaurants p xs st = Inl e \<Longrightarrow> e = RangeError ''Invalid time value''"
  by (induction xs arbitrary: st) (auto split: sum.splits prod.splits if_splits dest: isoMonth_Inl)

lemma analyzeDiversity_Inl:
  "analyzeDiversity p xs = Inl e \<Longrightarrow> e = RangeError ''Invalid time value''"
  by (auto simp: analyzeDiversity_def Let_def split: if_splits sum.splits prod.splits
      dest: newRestaurants_Inl traverse_isoMonth_Inl)

lemma analyzeTimePatterns_fails:
  "x \<in> set xs \<Longrightarrow> Date_parse p (date x) = None \<Longrightarrow>
   analyzeTimePatterns p xs = Inl (RangeError ''Invalid time value'')"
  using traverse_isoMonth_fails [of x xs p]
  by (auto simp: analyzeTimePatterns_def)

lemma set_insertSorted: "set (insertSorted cmp x ys) = insert x (set ys)"
  by (induction ys) auto

lemma set_sortWith: "set (sortWith cmp xs) = set xs"
  by (induction xs) (simp_all add: sortWith_def set_insertSorted)

subsection \<open>The regression trend\<close>

lemma fold_nplus_Fin':
  "fold (\<lambda>x acc. nplus acc x) (map Fin xs) (Fin a) = Fin (a + sum_list xs)"
  by (induction xs arbitrary: a) (simp_all add: add.assoc)

lemma sum_numbers_Fin: "sum_numbers (map Fin xs) = Fin (sum_list xs)"
  by (simp add: sum_numbers_def fold_nplus_Fin')

lemma zip_index: "zip (map f [0 ..< length ys]) ys = map (\<lambda>i. (f i, ys ! i)) [0 ..< length ys]"
  by (rule nth_equalityI) simp_all

lemma sum_list_upt: "sum_list (map f [0 ..< n]) = sum f {..<n}"
  by (simp add: interv_sum_list_conv_sum_set_nat atLeast0LessThan)

lemma sum_list_nth: "sum_list (ys :: rat list) = sum (\<lambda>i. ys ! i) {..<length ys}"
  by (simp add: sum_list_sum_nth atLeast0LessThan)

lemma sum_centred_expand:
  fixes x y :: "nat \<Rightarrow> rat" and a b :: rat
  shows "(\<Sum>i<n. (x i - a) * (y i - b))
           = (\<Sum>i<n. x i * y i) - b * (\<Sum>i<n. x i) - a * (\<Sum>i<n. y i) + of_nat n * (a * b)"
proof -
  have "(x i - a) * (y i - b) = x i * y i - b * x i - a * y i + a * b" for i
    by (simp add: algebra_simps)
  then have "(\<Sum>i<n. (x i - a) * (y i - b)) = (\<Sum>i<n. x i * y i - b * x i - a * y i + a * b)"
    by (simp only:)
  also have "\<dots> = (\<Sum>i<n. x i * y i) - b * (\<Sum>i<n. x i) - a * (\<Sum>i<n. y i) + of_nat n * (a * b)"
    by (simp add: sum.distrib sum_subtractf sum_distrib_left)
  finally show ?thesis .
qed

lemma centred_cancel:
  fixes N sx sy sxy :: rat
  assumes "N \<noteq> 0"
  shows "N * (sxy - sy / N * sx - sx / N * sy + N * (sx / N * (sy / N))) = N * sxy - sx * sy"
  using assms by (simp add: field_simps)

lemma centred_products:
  fixes x y :: "nat \<Rightarrow> rat"
  assumes "0 < n"
  shows "of_nat n * (\<Sum>i<n. (x i - (\<Sum>i<n. x i) / of_nat n) * (y i - (\<Sum>i<n. y i) / of_nat n))
           = of_nat n * (\<Sum>i<n. x i * y i) - (\<Sum>i<n. x i) * (\<Sum>i<n. y i)"
proof -
  have N: "(of_nat n :: rat) \<noteq> 0" using assms by simp
  show ?thesis
    by (simp only: sum_centred_expand centred_cancel [OF N])
qed

lemma centred_squares_pos:
  fixes a :: rat
  assumes "2 \<le> n"
  shows "0 < (\<Sum>i<n. (of_nat i - a) * (of_nat i - a))"
proof -
  let ?f = "\<lambda>i::nat. (of_nat i - a) * (of_nat i - a)"
  have sub: "{0, 1} \<subseteq> {..<n}" using assms by auto
  have "sum ?f {0, 1} \<le> sum ?f {..<n}"
    by (rule sum_mono2 [OF _ sub]) simp_all
  moreover have "sum ?f {0, 1} = a * a + (1 - a) * (1 - a)"
    by simp
  moreover have "0 < a * a + (1 - a) * (1 - a)"
    by (simp only: sum_squares_gt_zero_iff) auto
  ultimately show ?thesis by (simp only:)
qed

lemma ratio_cancel:
  fixes N C D p q :: rat
  assumes "N \<noteq> 0" and "0 < D" and "N * C = p" and "N * D = q"
  shows "q \<noteq> 0 \<and> p / q = C / D"
proof -
  from assms have "q \<noteq> 0" by auto
  moreover have "(N * C) / (N * D) = C / D" using assms(1) by simp
  ultimately show ?thesis using assms(3,4) by simp
qed

lemma trend_of_sums:
  fixes N sx sy sxy sxx :: rat
  assumes "N * sxx - sx * sx \<noteq> 0" and "N \<noteq> 0"
  shows "(let slope = ndiv (nminus (ntimes (Fin N) (Fin sxy)) (ntimes (Fin sx) (Fin sy)))
                        (nminus (ntimes (Fin N) (Fin sxx)) (ntimes (Fin sx) (Fin sx)));
              averageY = ndiv (Fin sy) (Fin N)
          in if nne averageY (Fin 0) then ntimes (ndiv slope averageY) (Fin 100) else Fin 0)
         = Fin (if sy / N = 0 then 0
                else (N * sxy - sx * sy) / (N * sxx - sx * sx) / (sy / N) * 100)"
  using assms by (simp add: Let_def nminus_def nne_def)

lemma regressionTrend_Fin:
  assumes "2 \<le> length ys"
  shows "regressionTrend (map Fin ys) = Fin (raw_trend ys)"
proof -
  let ?n = "length ys"
  let ?N = "of_nat ?n :: rat"
  let ?sx = "(\<Sum>i<?n. of_nat i) :: rat" and ?sy = "(\<Sum>i<?n. ys ! i)"
  let ?sxy = "(\<Sum>i<?n. of_nat i * ys ! i)" and ?sxx = "(\<Sum>i<?n. of_nat i * of_nat i) :: rat"
  let ?D = "(\<Sum>i<?n. (of_nat i - ?sx / ?N) * (of_nat i - ?sx / ?N)) :: rat"
  let ?C = "(\<Sum>i<?n. (of_nat i - ?sx / ?N) * (ys ! i - ?sy / ?N))"
  from assms have npos: "0 < ?n" and N0: "?N \<noteq> 0" by auto
  have num: "?N * ?C = ?N * ?sxy - ?sx * ?sy"
    using centred_products [OF npos, of "\<lambda>i. of_nat i" "\<lambda>i. ys ! i"] .
  have den: "?N * ?D = ?N * ?sxx - ?sx * ?sx"
    using centred_products [OF npos, of "\<lambda>i. of_nat i" "\<lambda>i. of_nat i"] .
  have Dpos: "0 < ?D" using assms by (rule centred_squares_pos)
  have den0: "?N * ?sxx - ?sx * ?sx \<noteq> 0"
    and slope: "(?N * ?sxy - ?sx * ?sy) / (?N * ?sxx - ?sx * ?sx) = ?C / ?D"
    using ratio_cancel [OF N0 Dpos num den] by blast+
  have xs: "map of_count [0 ..< ?n] = map Fin (map of_nat [0 ..< ?n])"
    by (simp add: of_count_def)
  have sumX: "sum_numbers (map of_count [0 ..< ?n]) = Fin ?sx"
    by (simp only: xs sum_numbers_Fin sum_list_upt)
  have sumY: "sum_numbers (map Fin ys) = Fin ?sy"
    by (simp only: sum_numbers_Fin sum_list_nth)
  have sumXY: "sum_numbers (map (\<lambda>(x, y). ntimes x y) (zip (map of_count [0 ..< ?n]) (map Fin ys)))
                 = Fin ?sxy"
  proof -
    have "map (\<lambda>(x, y). ntimes x y) (zip (map of_count [0 ..< ?n]) (map Fin ys))
            = map Fin (map (\<lambda>i. of_nat i * ys ! i) [0 ..< ?n])"
      using zip_index [of of_count "map Fin ys"] by (simp add: of_count_def)
    then show ?thesis by (simp only: sum_numbers_Fin sum_list_upt)
  qed
  have sumXX: "sum_numbers (map (\<lambda>x. ntimes x x) (map of_count [0 ..< ?n])) = Fin ?sxx"
  proof -
    have "map (\<lambda>x. ntimes x x) (map of_count [0 ..< ?n])
            = map Fin (map (\<lambda>i. of_nat i * of_nat i) [0 ..< ?n])"
      by (simp add: of_count_def)
    then show ?thesis by (simp only: sum_numbers_Fin sum_list_upt)
  qed
  have code: "regressionTrend (map Fin ys)
      = Fin (if ?sy / ?N = 0 then 0
             else (?N * ?sxy - ?sx * ?sy) / (?N * ?sxx - ?sx * ?sx) / (?sy / ?N) * 100)"
    unfolding regressionTrend_def Let_def length_map
    unfolding sumX sumY sumXY sumXX
    unfolding of_count_def
    using trend_of_sums [OF den0 N0] by (simp only: Let_def)
  have spec: "raw_trend ys = (if ?sy / ?N = 0 then 0 else ?C / ?D / (?sy / ?N) * 100)"
  proof -
    have "\<not> length ys < 2" using assms by simp
    then show ?thesis
      unfolding raw_trend_def ols_slope_def mean_of_def Let_def
      unfolding sum_list_upt
      unfolding sum_list_nth
      by (simp only: if_False length_map length_upt diff_zero)
  qed
  show ?thesis
    by (simp only: code spec slope)
qed

lemma length_sortEntries: "length (sortEntries m) = length m"
  by (simp add: sortEntries_def)

lemma set_sortEntries: "set (sortEntries m) = set m"
  by (simp add: sortEntries_def)

lemma map_Fin_fin_value: "list_all is_finite xs \<Longrightarrow> map Fin (map fin_value xs) = xs"
proof (induction xs)
  case Nil
  then show ?case by simp
next
  case (Cons x xs)
  then show ?case by (cases x) simp_all
qed

lemma recent_finite:
  assumes "list_all is_finite (values_of m)"
  shows "list_all is_finite (map snd (drop k (sortEntries m)))"
proof -
  have "set (drop k (sortEntries m)) \<subseteq> set m"
    using set_drop_subset [of k "sortEntries m"] by (simp add: set_sortEntries)
  then show ?thesis
    using assms by (auto simp: list_all_iff values_of_def)
qed

lemma trend_percentage_general:
  "2 \<le> length orders \<Longrightarrow>
   trend_percentage (analyzePredictive p orders sp ta)
     = Math_max (Fin (- 15))
         (Math_min (Fin 15)
            (if 2 \<le> length (drop (length (sortEntries (monthly_spending sp)) - 6)
                               (sortEntries (monthly_spending sp)))
             then regressionTrend
                    (map snd (drop (length (sortEntries (monthly_spending sp)) - 6)
                                (sortEntries (monthly_spending sp))))
             else Fin 0))"
  by (simp add: analyzePredictive_def Let_def)

lemma spending_trend_general:
  "2 \<le> length orders \<Longrightarrow>
   spending_trend (analyzePredictive p orders sp ta)
     = (if ngt (trend_percentage (analyzePredictive p orders sp ta)) (Fin 5) then increasing
        else if nlt (trend_percentage (analyzePredictive p orders sp ta)) (Fin (- 5)) then decreasing
        else stable)"
  by (simp add: analyzePredictive_def Let_def)

lemma clamp_Fin: "Math_max (Fin (- 15)) (Math_min (Fin 15) (Fin t)) = Fin (max (- 15) (min 15 t))"
  by (simp add: Math_max_def Math_min_def max_def min_def)

lemma trend_clamped:
  assumes "2 \<le> length orders" and "list_all is_finite (values_of (monthly_spending sp))"
  shows "trend_percentage (analyzePredictive p orders sp ta)
           = Fin (max (- 15) (min 15 (raw_trend
               (map (\<lambda>e. fin_value (snd e))
                  (drop (length (sortEntries (monthly_spending sp)) - 6)
                     (sortEntries (monthly_spending sp)))))))"
proof -
  let ?R = "drop (length (sortEntries (monthly_spending sp)) - 6) (sortEntries (monthly_spending sp))"
  let ?ys = "map fin_value (map snd ?R)"
  have fin: "map Fin ?ys = map snd ?R"
    using recent_finite [OF assms(2)] by (rule map_Fin_fin_value)
  have "(if 2 \<le> length ?R then regressionTrend (map snd ?R) else Fin 0) = Fin (raw_trend ?ys)"
  proof (cases "2 \<le> length ?R")
    case True
    then have "regressionTrend (map Fin ?ys) = Fin (raw_trend ?ys)"
      by (intro regressionTrend_Fin) simp
    then have "regressionTrend (map snd ?R) = Fin (raw_trend ?ys)"
      by (simp only: fin)
    then show ?thesis using True by (simp only: if_True)
  next
    case False
    then have "length ?ys < 2"
      by (simp only: length_map not_le)
    then have "raw_trend ?ys = 0"
      by (simp only: raw_trend_def if_True)
    then show ?thesis using False by (simp only: if_False)
  qed
  then have "trend_percentage (analyzePredictive p orders sp ta)
               = Fin (max (- 15) (min 15 (raw_trend ?ys)))"
    using trend_percentage_general [OF assms(1), of p sp ta] by (simp only: clamp_Fin)
  then show ?thesis
    by (simp add: comp_def)
qed

lemma in_replace_value:
  "(a, b) \<in> set (replace_value k v m) \<Longrightarrow> b = v \<or> (a, b) \<in> set m"
  by (induction m) (auto split: if_splits)

lemma set_replace_value:
  "set (map snd (replace_value k v m)) \<subseteq> insert v (set (map snd m))"
  using in_replace_value [of _ _ k v m] by force

lemma values_obj_set: "set (map snd (obj_set m k v)) \<subseteq> insert v (set (map snd m))"
proof (cases "map_of m k")
  case None
  then show ?thesis
    by (cases "array_index k") (auto simp: obj_set_def set_insert_index)
next
  case (Some c)
  then show ?thesis
    using set_replace_value [of k v m] by (simp add: obj_set_def)
qed

lemma finite_obj_set:
  "is_finite v \<Longrightarrow> list_all is_finite (map snd m) \<Longrightarrow> list_all is_finite (map snd (obj_set m k v))"
proof -
  assume "is_finite v" and "list_all is_finite (map snd m)"
  then have "\<forall>x \<in> insert v (set (map snd m)). is_finite x"
    by (simp add: list_all_iff)
  moreover have "set (map snd (obj_set m k v)) \<subseteq> insert v (set (map snd m))"
    by (rule values_obj_set)
  ultimately show ?thesis
    unfolding list_all_iff by blast
qed

lemma fold_totals_finite:
  "list_all is_finite (map snd acc) \<Longrightarrow>
   list_all is_finite (map snd (fold (\<lambda>(k, v) acc. obj_set acc k (sumBy f v)) gs acc))"
proof (induction gs arbitrary: acc)
  case Nil
  then show ?case by simp
next
  case (Cons g gs)
  obtain k v where g: "g = (k, v)" by (cases g)
  have "list_all is_finite (map snd (obj_set acc k (sumBy f v)))"
    using Cons.prems by (intro finite_obj_set) (simp_all add: sumBy_Fin)
  then show ?case
    using Cons.IH g by simp
qed

lemma analyzeSpending_monthly_finite:
  "list_all is_finite (values_of (monthly_spending (analyzeSpending p orders)))"
  using fold_totals_finite [of "[]" total_value]
  by (simp add: analyzeSpending_def Let_def values_of_def)

subsection \<open>The order of the months\<close>

text \<open>
  On keys written with digits and hyphens, which all lie above the comma, the order of the
  entries as strings is the order of their keys.
\<close>

lemma insort_key_cong_order:
  "(\<forall>y\<in>set ys. (f x \<le> f y) = (g x \<le> g y)) \<Longrightarrow> insort_key f x ys = insort_key g x ys"
  by (induction ys) simp_all

lemma sort_key_cong_order:
  "(\<forall>x\<in>set xs. \<forall>y\<in>set xs. (f x \<le> f y) = (g x \<le> g y)) \<Longrightarrow> sort_key f xs = sort_key g xs"
proof (induction xs)
  case Nil
  then show ?case by simp
next
  case (Cons x xs)
  then have "sort_key f xs = sort_key g xs" by simp
  moreover have "insort_key f x (sort_key g xs) = insort_key g x (sort_key g xs)"
    using Cons.prems by (intro insort_key_cong_order) simp
  ultimately show ?case by simp
qed

lemma comma_order:
  "list_all (\<lambda>c. CHR '','' < c) a \<Longrightarrow> list_all (\<lambda>c. CHR '','' < c) b \<Longrightarrow>
   (a @ '','' \<le> b @ '','') = (a \<le> b)"
proof (induction a arbitrary: b)
  case Nil
  show ?case
  proof (cases b)
    case Nil
    then show ?thesis by simp
  next
    case (Cons y ys)
    then have "CHR '','' < y" using Nil.prems by simp
    then show ?thesis using Cons by simp
  qed
next
  case (Cons x xs)
  from Cons.prems have x: "CHR '','' < x" and xs: "list_all (\<lambda>c. CHR '','' < c) xs"
    by simp_all
  from x have nx: "\<not> x < CHR '',''" and ne: "x \<noteq> CHR '',''"
    by (simp_all add: not_less less_imp_le less_imp_neq [symmetric])
  show ?case
  proof (cases b)
    case Nil
    then show ?thesis using nx ne by simp
  next
    case b: (Cons y ys)
    then have "list_all (\<lambda>c. CHR '','' < c) ys" using Cons.prems by simp
    then have "(xs @ '','' \<le> ys @ '','') = (xs \<le> ys)"
      using xs by (intro Cons.IH)
    then show ?thesis using b by simp
  qed
qed

lemma comma_code: "(of_char (CHR '','') :: nat) = 44"
  by simp

lemma hyphen_above_comma: "CHR '','' < CHR ''-''"
  by (simp add: less_char_def)

lemma digit_above_comma:
  assumes "is_digit c"
  shows "CHR '','' < c"
proof -
  from assms have "48 \<le> (of_char c :: nat)"
    unfolding is_digit_def by (rule conjunct1)
  then have "(44 :: nat) < of_char c"
    by linarith
  then show ?thesis
    unfolding less_char_def comma_code .
qed

lemma month_key_above_comma: "month_key k \<Longrightarrow> list_all (\<lambda>c. CHR '','' < c) k"
proof (induction k)
  case Nil
  then show ?case by simp
next
  case (Cons c k)
  then have "c = CHR ''-'' \<or> is_digit c" and "month_key k"
    by (simp_all add: month_key_def)
  then have "CHR '','' < c"
    using digit_above_comma hyphen_above_comma by blast
  then show ?case
    using Cons.IH \<open>month_key k\<close> by simp
qed

lemma sortEntries_month_keys:
  assumes "list_all month_key (keys m)"
  shows "sortEntries m = sort_key fst m"
proof -
  have above: "list_all (\<lambda>c. CHR '','' < c) (fst x)" if "x \<in> set m" for x
  proof -
    from that assms have "month_key (fst x)"
      by (simp add: list_all_iff keys_def)
    then show ?thesis by (rule month_key_above_comma)
  qed
  have "\<forall>x\<in>set m. \<forall>y\<in>set m.
          ((case x of (k, v) \<Rightarrow> k @ '','') \<le> (case y of (k, v) \<Rightarrow> k @ '','')) = (fst x \<le> fst y)"
  proof (intro ballI)
    fix x y assume "x \<in> set m" and "y \<in> set m"
    then have "(fst x @ '','' \<le> fst y @ '','') = (fst x \<le> fst y)"
      by (intro comma_order above)
    then show "((case x of (k, v) \<Rightarrow> k @ '','') \<le> (case y of (k, v) \<Rightarrow> k @ '','')) = (fst x \<le> fst y)"
      by (simp only: case_prod_beta)
  qed
  then show ?thesis
    unfolding sortEntries_def by (rule sort_key_cong_order)
qed

subsection \<open>The spending that is computed\<close>

lemma keys_obj_set: "set (keys (obj_set m k v)) = insert k (set (keys m))"
proof -
  have "set (keys (obj_set m k v)) = dom (map_of (obj_set m k v))"
    by (simp add: keys_def dom_map_of_conv_image_fst)
  also have "\<dots> = insert k (dom (map_of m))"
    by (simp only: map_of_obj_set dom_fun_upd option.distinct if_False)
  also have "\<dots> = insert k (set (keys m))"
    by (simp add: keys_def dom_map_of_conv_image_fst)
  finally show ?thesis .
qed

lemma fold_groups_keys:
  "set (keys (fold (\<lambda>x acc. obj_set acc (f x) (g acc x)) xs acc)) = f ` set xs \<union> set (keys acc)"
proof (induction xs arbitrary: acc)
  case Nil
  then show ?case by simp
next
  case (Cons x xs)
  then show ?case by (simp add: keys_obj_set)
qed

lemma keys_groupBy: "set (keys (groupBy f xs)) = f ` set xs"
  using fold_groups_keys [of f "\<lambda>acc x. case obj_get acc (f x) of Some g \<Rightarrow> g @ [x] | None \<Rightarrow> [x]" xs "[]"]
  by (simp add: groupBy_def keys_def)

lemma fold_totals_keys:
  "set (keys (fold (\<lambda>(k, v) acc. obj_set acc k (sumBy f v)) gs acc)) = set (keys gs) \<union> set (keys acc)"
proof (induction gs arbitrary: acc)
  case Nil
  then show ?case by (simp add: keys_def)
next
  case (Cons g gs)
  obtain k v where g: "g = (k, v)" by (cases g)
  show ?case
    by (simp add: Cons.IH g keys_obj_set) (simp add: keys_def)
qed

lemma fold_totals_distinct:
  "distinct (keys acc) \<Longrightarrow>
   distinct (keys (fold (\<lambda>(k, v) acc. obj_set acc k (sumBy f v)) gs acc))"
proof (induction gs arbitrary: acc)
  case Nil
  then show ?case by simp
next
  case (Cons g gs)
  obtain k v where g: "g = (k, v)" by (cases g)
  have "distinct (keys (obj_set acc k (sumBy f v)))"
    using Cons.prems unfolding keys_def by (rule distinct_obj_set)
  then show ?case
    using Cons.IH g by simp
qed

lemma analyzeSpending_keys_distinct:
  "distinct (keys (monthly_spending (analyzeSpending p orders)))"
  using fold_totals_distinct [of "[]" total_value]
  by (simp add: analyzeSpending_def Let_def keys_def)

lemma analyzeSpending_keys:
  "set (keys (monthly_spending (analyzeSpending p orders)))
     = (\<lambda>order. monthKey p (date order)) ` set orders"
  by (simp add: analyzeSpending_def Let_def fold_totals_keys keys_groupBy) (simp add: keys_def)

lemma analyzeSpending_total_spent:
  "total_spent (analyzeSpending p orders) = Fin (sum_list (map total_value orders))"
  by (simp add: analyzeSpending_def Let_def sumBy_Fin)

lemma digit_char: "k < 10 \<Longrightarrow> is_digit (char_of (48 + (k :: nat)))"
proof -
  assume "k < 10"
  then have "(48 + k) mod 256 = 48 + k"
    by simp
  then have "(of_char (char_of (48 + k)) :: nat) = 48 + k"
    by (simp only: of_char_of)
  then show ?thesis
    unfolding is_digit_def using \<open>k < 10\<close> by linarith
qed

lemma digits_are_digits: "list_all is_digit (digits n)"
proof (induction n rule: digits.induct)
  case (1 n)
  show ?case
  proof (cases "n < 10")
    case True
    then show ?thesis
      by (subst digits.simps) (simp add: digit_char)
  next
    case False
    have "n mod 10 < 10" by simp
    then have "is_digit (char_of (48 + n mod 10))"
      by (rule digit_char)
    then show ?thesis
      using False 1 by (subst digits.simps) simp
  qed
qed

lemma month_key_digits: "list_all is_digit s \<Longrightarrow> month_key s"
  by (simp add: month_key_def list_all_iff)

lemma month_key_String_int: "month_key (String_int i)"
  using month_key_digits [OF digits_are_digits]
  by (simp add: String_int_def) (simp add: month_key_def)

lemma month_key_append: "month_key (a @ b) = (month_key a \<and> month_key b)"
  by (simp add: month_key_def)

lemma month_key_replicate_zero: "month_key (replicate n (CHR ''0''))"
proof -
  have "is_digit (CHR ''0'')"
    by (simp add: is_digit_def)
  then show ?thesis
    by (simp add: month_key_def list_all_iff)
qed

lemma month_key_monthKey:
  assumes "localTime p s = Some t"
  shows "month_key (monthKey p s)"
proof -
  have hyphen: "month_key ''-''"
    by (simp add: month_key_def)
  have "monthKey p s
          = String_int (YearFromTime t) @ ''-''
            @ replicate (2 - length (String_int (MonthFromTime t + 1))) (CHR ''0'')
            @ String_int (MonthFromTime t + 1)"
    by (simp add: monthKey_def getFullYear_def getMonth_def assms String_date_field_def
        padStart_def)
  then show ?thesis
    by (simp only: month_key_append month_key_String_int month_key_replicate_zero hyphen simp_thms)
qed

lemma analyzeSpending_month_keys:
  assumes "list_all (\<lambda>order. localTime p (date order) \<noteq> None) orders"
  shows "list_all month_key (keys (monthly_spending (analyzeSpending p orders)))"
proof -
  have "month_key k" if "k \<in> set (keys (monthly_spending (analyzeSpending p orders)))" for k
  proof -
    from that obtain order where "order \<in> set orders" and k: "k = monthKey p (date order)"
      unfolding analyzeSpending_keys by blast
    with assms obtain t where "localTime p (date order) = Some t"
      by (auto simp: list_all_iff)
    then show ?thesis
      unfolding k by (rule month_key_monthKey)
  qed
  then show ?thesis
    by (simp add: list_all_iff)
qed

lemma monthly_spending_newest_first:
  "monthly_spending (analyzeSpending utc february_150_january_100)
     = [(''2024-02'', Fin 150), (''2024-01'', Fin 100)]"
  by code_simp

lemma total_spent_newest_first:
  "total_spent (analyzeSpending utc february_150_january_100) = Fin 250"
  by (simp add: analyzeSpending_def Let_def sumBy_Fin february_150_january_100_def an_order_def)

subsection \<open>The forecast\<close>

lemma fold_weightStep:
  assumes "list_all is_finite (map snd es)"
  shows "fold weightStep (zip es ns) (Fin a, Fin b)
           = (Fin (a + sum_list (map (\<lambda>(e, i). fin_value (snd e) * of_nat (i + 1)) (zip es ns))),
              Fin (b + sum_list (map (\<lambda>(e, i). of_nat (i + 1)) (zip es ns))))"
  using assms
proof (induction es arbitrary: ns a b)
  case Nil
  then show ?case by simp
next
  case (Cons e es)
  show ?case
  proof (cases ns)
    case Nil
    then show ?thesis by simp
  next
    case (Cons n ns')
    obtain key y where e: "e = (key, Fin y)"
      using Cons.prems by (cases e, cases "snd e") auto
    have step: "weightStep (e, n) (Fin a, Fin b)
                  = (Fin (a + y * of_nat (n + 1)), Fin (b + of_nat (n + 1)))"
      by (simp add: weightStep_def e of_count_def)
    have rest: "list_all is_finite (map snd es)"
      using Cons.prems by simp
    have "fold weightStep (zip (e # es) (n # ns')) (Fin a, Fin b)
            = fold weightStep (zip es ns') (weightStep (e, n) (Fin a, Fin b))"
      by simp
    also have "\<dots> = fold weightStep (zip es ns')
                         (Fin (a + y * of_nat (n + 1)), Fin (b + of_nat (n + 1)))"
      by (simp only: step)
    also have "\<dots> = (Fin (a + y * of_nat (n + 1)
                              + sum_list (map (\<lambda>(e, i). fin_value (snd e) * of_nat (i + 1)) (zip es ns'))),
                         Fin (b + of_nat (n + 1)
                              + sum_list (map (\<lambda>(e, i). of_nat (i + 1)) (zip es ns'))))"
      by (rule Cons.IH [OF rest])
    also have "\<dots> = (Fin (a + sum_list (map (\<lambda>(e, i). fin_value (snd e) * of_nat (i + 1))
                                              (zip (e # es) (n # ns')))),
                         Fin (b + sum_list (map (\<lambda>(e, i). of_nat (i + 1)) (zip (e # es) (n # ns')))))"
      by (simp add: e add.assoc)
    finally show ?thesis
      unfolding Cons .
  qed
qed

lemma zip_upt_nth: "zip es [0 ..< length es] = map (\<lambda>i. (es ! i, i)) [0 ..< length es]"
  by (rule nth_equalityI) simp_all

lemma weight_sums:
  assumes "list_all is_finite (map snd es)"
  shows "fold weightStep (zip es [0 ..< length es]) (Fin 0, Fin 0)
           = (Fin (sum_list (map (\<lambda>i. of_nat (i + 1) * map (\<lambda>e. fin_value (snd e)) es ! i)
                               [0 ..< length es])),
              Fin (sum_list (map (\<lambda>i. of_nat (i + 1)) [0 ..< length es])))"
proof -
  have "map (\<lambda>(e, i). fin_value (snd e) * of_nat (i + 1)) (zip es [0 ..< length es])
          = map (\<lambda>i. of_nat (i + 1) * map (\<lambda>e. fin_value (snd e)) es ! i) [0 ..< length es]"
    unfolding zip_upt_nth by (simp add: mult.commute del: of_nat_add of_nat_Suc)
  moreover have "map (\<lambda>(e, i). (of_nat (i + 1) :: rat)) (zip es [0 ..< length es])
          = map (\<lambda>i. of_nat (i + 1)) [0 ..< length es]"
    unfolding zip_upt_nth by (simp del: of_nat_add of_nat_Suc)
  ultimately show ?thesis
    using fold_weightStep [OF assms, of "[0 ..< length es]" 0 0] by (simp del: of_nat_add of_nat_Suc)
qed

lemma total_weight_pos:
  "0 < n \<Longrightarrow> (0 :: rat) < sum_list (map (\<lambda>i. of_nat (i + 1)) [0 ..< n])"
proof -
  assume "0 < n"
  then have "{..<n} \<noteq> {}" by auto
  then have "(0 :: rat) < (\<Sum>i<n. of_nat (i + 1))"
    by (intro sum_pos) simp_all
  then show ?thesis
    by (simp only: sum_list_upt)
qed

lemma forecast_general:
  "2 \<le> length orders \<Longrightarrow>
   forecasted_monthly_spending (analyzePredictive p orders sp ta)
     = (let entries = sortEntries (monthly_spending sp);
            recent = drop (length entries - 6) entries;
            months =
              Math_max (Fin 1)
                (nplus
                   (nplus
                      (ntimes (nminus (of_date_field (getFullYear p (date (orders ! (length orders - 1)))))
                                 (of_date_field (getFullYear p (date (orders ! 0))))) (Fin 12))
                      (nminus (of_date_field (getMonth p (date (orders ! (length orders - 1)))))
                         (of_date_field (getMonth p (date (orders ! 0))))))
                   (Fin 1));
            lifetime = ndiv (total_spent sp) months;
            acc = fold weightStep (zip recent [0 ..< length recent]) (Fin 0, Fin 0)
        in ntimes
             (nplus
                (ntimes (if 0 < length recent then ndiv (fst acc) (snd acc) else lifetime)
                   (Fin (7 / 10)))
                (ntimes lifetime (Fin (3 / 10))))
             (nplus (Fin 1) (ndiv (trend_percentage (analyzePredictive p orders sp ta)) (Fin 100))))"
  by (simp add: analyzePredictive_def Let_def)

lemma annual_general:
  "2 \<le> length orders \<Longrightarrow>
   estimated_annual_spending (analyzePredictive p orders sp ta)
     = ntimes (forecasted_monthly_spending (analyzePredictive p orders sp ta)) (Fin 12)"
  by (simp add: analyzePredictive_def Let_def)

lemma activeMonths_Fin:
  assumes "localTime p d0 = Some t0" and "localTime p d1 = Some t1"
  shows "Math_max (Fin 1)
           (nplus
              (nplus
                 (ntimes (nminus (of_date_field (getFullYear p d1)) (of_date_field (getFullYear p d0)))
                    (Fin 12))
                 (nminus (of_date_field (getMonth p d1)) (of_date_field (getMonth p d0))))
              (Fin 1))
         = Fin (of_int (active_months t0 t1))"
proof -
  define d where
    "d = (YearFromTime t1 - YearFromTime t0) * 12 + (MonthFromTime t1 - MonthFromTime t0) + 1"
  have "nplus
          (nplus
             (ntimes (nminus (of_date_field (getFullYear p d1)) (of_date_field (getFullYear p d0)))
                (Fin 12))
             (nminus (of_date_field (getMonth p d1)) (of_date_field (getMonth p d0))))
          (Fin 1)
        = Fin (of_int d)"
    by (simp add: assms getFullYear_def getMonth_def of_date_field_def nminus_def d_def)
  moreover have "Math_max (Fin 1) (Fin (of_int d)) = Fin (of_int (max 1 d))"
    by (cases "1 < d") (simp_all add: Math_max_def max_def)
  ultimately show ?thesis
    by (simp only: active_months_def d_def)
qed

lemma active_months_pos: "0 < active_months t0 t1"
  by (simp add: active_months_def)

lemma recentWeightedAvg_Fin:
  assumes "list_all is_finite (map snd es)" and "0 < length es"
  shows "ndiv (fst (fold weightStep (zip es [0 ..< length es]) (Fin 0, Fin 0)))
           (snd (fold weightStep (zip es [0 ..< length es]) (Fin 0, Fin 0)))
         = Fin (weighted_average (map (\<lambda>e. fin_value (snd e)) es))"
proof -
  have "sum_list (map (\<lambda>i. (of_nat (i + 1) :: rat)) [0 ..< length es]) \<noteq> 0"
    using total_weight_pos [OF assms(2)] by simp
  then show ?thesis
    unfolding weight_sums [OF assms(1)] weighted_average_def by simp
qed

lemma recent_window:
  assumes "list_all month_key (keys m)"
  shows "map (\<lambda>e. fin_value (snd e)) (drop (length (sortEntries m) - 6) (sortEntries m))
           = recent_monthly_totals m"
  unfolding recent_monthly_totals_def sortEntries_month_keys [OF assms] by simp

lemma forecast_clamped:
  assumes "2 \<le> length orders"
    and "list_all month_key (keys (monthly_spending sp))"
    and "list_all is_finite (values_of (monthly_spending sp))"
    and "total_spent sp = Fin spent"
    and "localTime p (date (orders ! 0)) = Some t0"
    and "localTime p (date (orders ! (length orders - 1))) = Some t1"
  shows "forecasted_monthly_spending (analyzePredictive p orders sp ta)
           = Fin (base_forecast (recent_monthly_totals (monthly_spending sp)) spent
                    (active_months t0 t1)
                  * (1 + max (- 15) (min 15 (raw_trend (recent_monthly_totals (monthly_spending sp))))
                         / 100))"
proof -
  define R where
    "R = drop (length (sortEntries (monthly_spending sp)) - 6) (sortEntries (monthly_spending sp))"
  define ys where "ys = recent_monthly_totals (monthly_spending sp)"
  define c where "c = max (- 15) (min 15 (raw_trend ys))"
  define months where "months = active_months t0 t1"
  define lifetime where "lifetime = spent / of_int months"
  define acc where "acc = fold weightStep (zip R [0 ..< length R]) (Fin 0, Fin 0)"
  have window: "map (\<lambda>e. fin_value (snd e)) R = ys"
    unfolding R_def ys_def using assms(2) by (rule recent_window)
  have tp: "trend_percentage (analyzePredictive p orders sp ta) = Fin c"
    using trend_clamped [OF assms(1) assms(3), of p ta] window
    by (simp only: R_def c_def)
  have months: "Math_max (Fin 1)
           (nplus
              (nplus
                 (ntimes (nminus (of_date_field (getFullYear p (date (orders ! (length orders - 1)))))
                            (of_date_field (getFullYear p (date (orders ! 0))))) (Fin 12))
                 (nminus (of_date_field (getMonth p (date (orders ! (length orders - 1)))))
                    (of_date_field (getMonth p (date (orders ! 0))))))
              (Fin 1))
         = Fin (of_int months)"
    unfolding months_def using assms(5) assms(6) by (rule activeMonths_Fin)
  have "0 < months"
    unfolding months_def by (rule active_months_pos)
  then have life: "ndiv (total_spent sp) (Fin (of_int months)) = Fin lifetime"
    by (simp add: assms(4) lifetime_def)
  have finite: "list_all is_finite (map snd R)"
    unfolding R_def using assms(3) by (rule recent_finite)
  have recent: "(if 0 < length R then ndiv (fst acc) (snd acc) else Fin lifetime)
                  = Fin (if ys = [] then lifetime else weighted_average ys)"
  proof (cases "0 < length R")
    case True
    then have "ndiv (fst acc) (snd acc) = Fin (weighted_average ys)"
      unfolding acc_def using recentWeightedAvg_Fin [OF finite] by (simp only: window)
    moreover from True have "ys \<noteq> []"
      using window by auto
    ultimately show ?thesis
      using True by simp
  next
    case False
    then have "ys = []"
      using window by auto
    then show ?thesis
      using False by simp
  qed
  have "forecasted_monthly_spending (analyzePredictive p orders sp ta)
          = ntimes
              (nplus
                 (ntimes (if 0 < length R then ndiv (fst acc) (snd acc) else Fin lifetime)
                    (Fin (7 / 10)))
                 (ntimes (Fin lifetime) (Fin (3 / 10))))
              (nplus (Fin 1) (ndiv (Fin c) (Fin 100)))"
    using forecast_general [OF assms(1), of p sp ta]
    unfolding Let_def
    by (simp only: months life tp R_def [symmetric] acc_def [symmetric])
  also have "\<dots> = Fin ((7 / 10 * (if ys = [] then lifetime else weighted_average ys)
                          + 3 / 10 * lifetime) * (1 + c / 100))"
    unfolding recent by (simp add: mult.commute)
  also have "\<dots> = Fin (base_forecast ys spent months * (1 + c / 100))"
    by (simp add: base_forecast_def Let_def lifetime_def)
  finally show ?thesis
    by (simp only: ys_def c_def months_def)
qed

text \<open>
  Claim C6. With two orders or more, for a spending record with finite monthly totals under
  distinct month keys and a finite total spent, and a first and a last order whose dates
  parse: the reported trend percentage is the slope-over-mean trend of the recent monthly
  totals, which are the last six in ascending order of their month key, clamped to the
  interval from -15 to 15; the label is increasing exactly when the clamped trend is above 5,
  decreasing exactly when it is below -5, stable otherwise; the forecasted monthly spending is
  the base forecast moved by the clamped trend in percent, and the estimated annual spending
  is twelve times that forecast. The monthly totals 100 and 150 have a raw trend of 40
  percent and are reported with a trend percentage of 15, also when the spending record was
  computed from the orders given newest first. The monthly totals that
  \<^verbatim>\<open>analyzeSpending\<close> computes are always finite and under distinct keys, and its total spent
  is finite.
\<close>

theorem analyzePredictive_trend_clamped:
  assumes "2 \<le> length orders"
    and "distinct (keys (monthly_spending sp))"
    and "list_all month_key (keys (monthly_spending sp))"
    and "list_all is_finite (values_of (monthly_spending sp))"
    and "total_spent sp = Fin spent"
    and "localTime p (date (orders ! 0)) = Some t0"
    and "localTime p (date (orders ! (length orders - 1))) = Some t1"
  shows "(let ys = recent_monthly_totals (monthly_spending sp);
              c = max (- 15) (min 15 (raw_trend ys));
              base = base_forecast ys spent (active_months t0 t1);
              r = analyzePredictive p orders sp ta
          in trend_percentage r = Fin c \<and> - 15 \<le> c \<and> c \<le> 15
             \<and> (spending_trend r = increasing) = (5 < c)
             \<and> (spending_trend r = decreasing) = (c < - 5)
             \<and> (spending_trend r = stable) = (- 5 \<le> c \<and> c \<le> 5)
             \<and> forecasted_monthly_spending r = Fin (base * (1 + c / 100))
             \<and> estimated_annual_spending r = Fin (base * (1 + c / 100) * 12))
         \<and> raw_trend [100, 150] = 40
         \<and> trend_percentage
             (analyzePredictive utc january_100_february_150
                (analyzeSpending utc january_100_february_150) ta') = Fin 15
         \<and> trend_percentage
             (analyzePredictive utc january_100_february_150
                (analyzeSpending utc february_150_january_100) ta') = Fin 15
         \<and> list_all is_finite (values_of (monthly_spending (analyzeSpending p' orders')))
         \<and> distinct (keys (monthly_spending (analyzeSpending p' orders')))
         \<and> total_spent (analyzeSpending p' orders') = Fin (sum_list (map total_value orders'))"
proof -
  define ys where "ys = recent_monthly_totals (monthly_spending sp)"
  define c where "c = max (- 15) (min 15 (raw_trend ys))"
  define base where "base = base_forecast ys spent (active_months t0 t1)"
  have "map (\<lambda>e. fin_value (snd e))
          (drop (length (sortEntries (monthly_spending sp)) - 6) (sortEntries (monthly_spending sp)))
        = ys"
    unfolding ys_def using assms(3) by (rule recent_window)
  then have tp: "trend_percentage (analyzePredictive p orders sp ta) = Fin c"
    using trend_clamped [OF assms(1) assms(4), of p ta] by (simp only: c_def)
  have bounds: "- 15 \<le> c \<and> c \<le> 15"
    by (simp add: c_def)
  have label: "spending_trend (analyzePredictive p orders sp ta)
                 = (if 5 < c then increasing else if c < - 5 then decreasing else stable)"
    using spending_trend_general [OF assms(1), of p sp ta] by (simp add: tp ngt_def)
  have labels: "(spending_trend (analyzePredictive p orders sp ta) = increasing) = (5 < c)
      \<and> (spending_trend (analyzePredictive p orders sp ta) = decreasing) = (c < - 5)
      \<and> (spending_trend (analyzePredictive p orders sp ta) = stable) = (- 5 \<le> c \<and> c \<le> 5)"
    by (auto simp: label)
  have forecast: "forecasted_monthly_spending (analyzePredictive p orders sp ta)
                    = Fin (base * (1 + c / 100))"
    unfolding base_def c_def ys_def
    using assms(1) assms(3) assms(4) assms(5) assms(6) assms(7) by (rule forecast_clamped)
  have annual: "estimated_annual_spending (analyzePredictive p orders sp ta)
                  = Fin (base * (1 + c / 100) * 12)"
    using annual_general [OF assms(1), of p sp ta] by (simp add: forecast)
  have raw: "raw_trend [100, 150] = 40"
    by code_simp
  have example: "trend_percentage
             (analyzePredictive utc january_100_february_150
                (analyzeSpending utc january_100_february_150) ta') = Fin 15"
    by code_simp
  have newest_first: "trend_percentage
             (analyzePredictive utc january_100_february_150
                (analyzeSpending utc february_150_january_100) ta') = Fin 15"
    by code_simp
  have finite: "list_all is_finite (values_of (monthly_spending (analyzeSpending p' orders')))"
    by (rule analyzeSpending_monthly_finite)
  have distinct_keys: "distinct (keys (monthly_spending (analyzeSpending p' orders')))"
    by (rule analyzeSpending_keys_distinct)
  have total_finite: "total_spent (analyzeSpending p' orders') = Fin (sum_list (map total_value orders'))"
    by (rule analyzeSpending_total_spent)
  from tp bounds labels forecast annual raw example newest_first finite distinct_keys total_finite
  show ?thesis
    unfolding c_def base_def ys_def Let_def by blast
qed

theorem analyzePredictive_trend_clamped_witness:
  "2 \<le> length january_100_february_150
   \<and> distinct (keys (monthly_spending (analyzeSpending utc february_150_january_100)))
   \<and> list_all month_key (keys (monthly_spending (analyzeSpending utc february_150_january_100)))
   \<and> list_all is_finite (values_of (monthly_spending (analyzeSpending utc february_150_january_100)))
   \<and> total_spent (analyzeSpending utc february_150_january_100) = Fin 250
   \<and> localTime utc (date (january_100_february_150 ! 0)) = Some 1705276800000
   \<and> localTime utc (date (january_100_february_150 ! (length january_100_february_150 - 1)))
       = Some 1707955200000
   \<and> keys (monthly_spending (analyzeSpending utc february_150_january_100))
       = [''2024-02'', ''2024-01'']
   \<and> recent_monthly_totals (monthly_spending (analyzeSpending utc february_150_january_100))
       = [100, 150]
   \<and> active_months 1705276800000 1707955200000 = 2
   \<and> trend_percentage
       (analyzePredictive utc january_100_february_150
          (analyzeSpending utc february_150_january_100) (timeAnalysis getEmptyAnalytics)) = Fin 15
   \<and> spending_trend
       (analyzePredictive utc january_100_february_150
          (analyzeSpending utc february_150_january_100) (timeAnalysis getEmptyAnalytics))
       = increasing
   \<and> forecasted_monthly_spending
       (analyzePredictive utc january_100_february_150
          (analyzeSpending utc february_150_january_100) (timeAnalysis getEmptyAnalytics))
       = Fin (3611 / 24)
   \<and> estimated_annual_spending
       (analyzePredictive utc january_100_february_150
          (analyzeSpending utc february_150_january_100) (timeAnalysis getEmptyAnalytics))
       = Fin (3611 / 2)"
proof -
  have len: "2 \<le> length january_100_february_150"
    by code_simp
  have dist: "distinct (keys (monthly_spending (analyzeSpending utc february_150_january_100)))"
    unfolding monthly_spending_newest_first by code_simp
  have mk: "list_all month_key (keys (monthly_spending (analyzeSpending utc february_150_january_100)))"
    unfolding monthly_spending_newest_first by code_simp
  have fin: "list_all is_finite
               (values_of (monthly_spending (analyzeSpending utc february_150_january_100)))"
    unfolding monthly_spending_newest_first by code_simp
  have spent: "total_spent (analyzeSpending utc february_150_january_100) = Fin 250"
    by (rule total_spent_newest_first)
  have first: "localTime utc (date (january_100_february_150 ! 0)) = Some 1705276800000"
    by code_simp
  have last: "localTime utc (date (january_100_february_150 ! (length january_100_february_150 - 1)))
                = Some 1707955200000"
    by code_simp
  have ks: "keys (monthly_spending (analyzeSpending utc february_150_january_100))
              = [''2024-02'', ''2024-01'']"
    unfolding monthly_spending_newest_first by code_simp
  have recent: "recent_monthly_totals (monthly_spending (analyzeSpending utc february_150_january_100))
                  = [100, 150]"
    unfolding monthly_spending_newest_first by code_simp
  have months: "active_months 1705276800000 1707955200000 = 2"
    by code_simp
  have raw: "raw_trend [100, 150] = 40"
    by code_simp
  have base: "base_forecast [100, 150] 250 2 = 785 / 6"
    by code_simp
  show ?thesis
    using analyzePredictive_trend_clamped
      [OF len dist mk fin spent first last, of "timeAnalysis getEmptyAnalytics"]
      len dist mk fin spent first last ks
    by (simp add: Let_def recent raw months base)
qed

subsection \<open>Reorder signatures\<close>

text \<open>
  Claim C5, as stated, at an explicit input: an order with the item Burger twice and an
  order with the item Burger once have the same set of distinct lowercase item names, but
  their signatures are \<^verbatim>\<open>burger|burger\<close> and \<^verbatim>\<open>burger\<close>, and the two orders together have
  no repeated signature.
\<close>

theorem itemSignature_duplicates_counterexample:
  "itemSignature (an_order ''Delivered'' 100 ''2024-01-05'' [burger, burger]) = ''burger|burger''
   \<and> itemSignature (an_order ''Delivered'' 100 ''2024-01-06'' [burger]) = ''burger''
   \<and> exact_reorder_count (reorder_patterns (analyzeOrderBehavior
        [an_order ''Delivered'' 100 ''2024-01-05'' [burger, burger],
         an_order ''Delivered'' 100 ''2024-01-06'' [burger]])) = 0"
  by code_simp

text \<open>
  Claim C5, amended. The signature of an order is the sorted, pipe-joined list of the
  lowercased and trimmed names of all its items, a name that occurs twice being written
  twice; \<^verbatim>\<open>exact_reorder_count\<close> is the number of distinct signatures that occur in more than
  one order.
\<close>

theorem exact_reorder_count_repeated_signatures:
  "exact_reorder_count (reorder_patterns (analyzeOrderBehavior orders))
     = card {s. 1 < count_list (map itemSignature orders) s}
   \<and> itemSignature order
       = join ''|'' (sort (map (\<lambda>i. trim (toLowerCase (name i))) (items order)))
   \<and> length (sort (map (\<lambda>i. trim (toLowerCase (name i))) (items order))) = length (items order)"
proof -
  let ?sigs = "map itemSignature orders"
  have "exact_reorder_count (reorder_patterns (analyzeOrderBehavior orders))
          = length (filter (\<lambda>c. 1 < c) (map snd (countBy ?sigs)))"
    by (simp add: analyzeOrderBehavior_def Let_def values_of_def)
  also have "\<dots> = card {k. \<exists>v. map_of (countBy ?sigs) k = Some v \<and> 1 < v}"
    by (rule count_values_distinct [OF distinct_countBy])
  also have "\<dots> = card {s. 1 < count_list ?sigs s}"
    by (simp only: repeated_keys_countBy)
  finally show ?thesis
    by (simp add: itemSignature_def)
qed

theorem exact_reorder_count_repeated_signatures_witness:
  "exact_reorder_count (reorder_patterns (analyzeOrderBehavior
      [an_order ''Delivered'' 100 ''2024-01-05'' [burger],
       an_order ''Delivered'' 100 ''2024-01-06'' [burger]])) = 1
   \<and> card {s. 1 < count_list (map itemSignature
        [an_order ''Delivered'' 100 ''2024-01-05'' [burger],
         an_order ''Delivered'' 100 ''2024-01-06'' [burger]]) s} = 1"
proof -
  let ?os = "[an_order ''Delivered'' 100 ''2024-01-05'' [burger],
              an_order ''Delivered'' 100 ''2024-01-06'' [burger]]"
  have one: "exact_reorder_count (reorder_patterns (analyzeOrderBehavior ?os)) = 1"
    by code_simp
  have "exact_reorder_count (reorder_patterns (analyzeOrderBehavior ?os))
          = card {s. 1 < count_list (map itemSignature ?os) s}"
    using exact_reorder_count_repeated_signatures [of ?os] by (rule conjunct1)
  with one have "card {s. 1 < count_list (map itemSignature ?os) s} = 1"
    by (simp only:)
  with one show ?thesis
    by (rule conjI)
qed

subsection \<open>Unparseable dates\<close>

text \<open>
  Claim C3, as stated, at an explicit input: the only order of the list has a date that does
  not parse and a status that contains \<^verbatim>\<open>cancel\<close>; the analysis raises nothing and returns
  the empty analytics.
\<close>

theorem analyze_cancelled_bad_date_counterexample:
  "Date_parse utc (date cancelled_bad_date) = None
   \<and> analyze utc [cancelled_bad_date] = Inr getEmptyAnalytics"
  by code_simp

text \<open>
  Claim C3, amended. When an order that the filter keeps (its status contains neither
  \<^verbatim>\<open>cancel\<close> nor \<^verbatim>\<open>fail\<close>) has a date that does not parse, the analysis returns no result:
  it ends with the RangeError \<^verbatim>\<open>Invalid time value\<close> that \<^verbatim>\<open>toISOString\<close> throws, which
  names no order. The engine has no validation of its own and no error type of its own.
\<close>

theorem analyze_invalid_date_RangeError:
  assumes "order \<in> set orders" and "isDelivered order" and "Date_parse p (date order) = None"
  shows "analyze p orders = Inl (RangeError ''Invalid time value'')"
proof -
  let ?d = "filter isDelivered orders"
  let ?s = "sortWith (compareDates p) ?d"
  from assms have mem: "order \<in> set ?s" by (simp add: set_sortWith)
  have ne: "?d \<noteq> []" using assms by (auto simp: filter_empty_conv)
  have t: "analyzeTimePatterns p ?s = Inl (RangeError ''Invalid time value'')"
    using mem assms(3) by (rule analyzeTimePatterns_fails)
  show ?thesis
  proof (cases "analyzeDiversity p ?s")
    case (Inl e)
    then have "e = RangeError ''Invalid time value''" by (rule analyzeDiversity_Inl)
    with Inl ne show ?thesis by (simp add: analyze_def Let_def)
  next
    case (Inr dv)
    with t ne show ?thesis by (simp add: analyze_def Let_def)
  qed
qed

theorem analyze_invalid_date_RangeError_witness:
  "delivered_bad_date \<in> set [order_on ''2024-01-06'', delivered_bad_date]
   \<and> isDelivered delivered_bad_date
   \<and> Date_parse utc (date delivered_bad_date) = None
   \<and> analyze utc [order_on ''2024-01-06'', delivered_bad_date]
       = Inl (RangeError ''Invalid time value'')"
proof -
  have kept: "isDelivered delivered_bad_date"
    by code_simp
  have bad: "Date_parse utc (date delivered_bad_date) = None"
    by code_simp
  show ?thesis
    using kept bad
      analyze_invalid_date_RangeError
        [of delivered_bad_date "[order_on ''2024-01-06'', delivered_bad_date]" utc]
    by simp
qed

subsection \<open>No valid order\<close>

lemma empty_spending:
  "spending getEmptyAnalytics =
     \<lparr> total_spent = Fin 0, average_order_value = Fin 0, median_order_value = Fin 0,
       total_delivery_fees = Fin 0, total_service_fees = Fin 0, total_voucher_savings = Fin 0,
       voucher_usage_rate = Fin 0, monthly_spending = [],
       spending_category =
         \<lparr> category_type = ''N/A'', category_description = ''No data'',
           category_color = ''gray'' \<rparr> \<rparr>"
  by (simp add: getEmptyAnalytics_def)

lemma empty_restaurants_food:
  "top_restaurants_by_orders (restaurants getEmptyAnalytics) = []
   \<and> unique_restaurants (restaurants getEmptyAnalytics) = 0
   \<and> top_restaurant_percentage (loyalty_analysis (restaurants getEmptyAnalytics)) = Fin 0
   \<and> food getEmptyAnalytics =
       \<lparr> top_food_items = [], food_categories = [], average_items_per_order = Fin 0,
         total_unique_items = 0 \<rparr>"
  by (simp add: getEmptyAnalytics_def)

lemma empty_patterns_payments:
  "peak_hour (patterns getEmptyAnalytics) = Fin 0
   \<and> weekend_vs_weekday (patterns getEmptyAnalytics) =
       \<lparr> weekend_orders = 0, weekday_orders = 0, weekend_percentage = Fin 0 \<rparr>
   \<and> hourly_patterns (patterns getEmptyAnalytics) = []
   \<and> payment_method_counts (payments getEmptyAnalytics) = []"
  by (simp add: getEmptyAnalytics_def)

lemma empty_prices_behavior:
  "prices getEmptyAnalytics =
     \<lparr> average_price_per_item = Fin 0,
       price_range = \<lparr> price_min = Fin 0, price_max = Fin 0 \<rparr>,
       restaurant_value_scores = [], discount_effectiveness = Fin 0,
       price_trend_over_time = [] \<rparr>
   \<and> behavior getEmptyAnalytics =
       \<lparr> order_size_distribution = \<lparr> small = 0, medium = 0, large = 0 \<rparr>,
         average_basket_size = Fin 0,
         addon_frequency = \<lparr> drinks_percentage = Fin 0, desserts_percentage = Fin 0 \<rparr>,
         reorder_patterns = \<lparr> exact_reorder_count = 0, similar_items_frequency = [] \<rparr> \<rparr>"
  by (simp add: getEmptyAnalytics_def)

lemma empty_diversity_time:
  "diversity getEmptyAnalytics =
     \<lparr> cuisine_switching_rate = Fin 0, new_restaurants_per_month = [],
       restaurant_discovery_rate = Fin 0, cuisine_preference_evolution = [],
       variety_score = Fin 0 \<rparr>
   \<and> timeAnalysis getEmptyAnalytics =
       \<lparr> order_frequency_trend = [], average_days_between_orders = Fin 0,
         spending_by_day_of_week = [], seasonal_patterns = [],
         time_gap_distribution =
           \<lparr> same_day = 0, within_week = 0, within_month = 0, over_month = 0 \<rparr>,
         ordering_acceleration = Fin 0 \<rparr>"
  by (simp add: getEmptyAnalytics_def)

lemma empty_cost_health:
  "costOptimization getEmptyAnalytics =
     \<lparr> fee_to_food_ratio = Fin 0, average_fee_percentage = Fin 0, optimal_order_value = Fin 0,
       voucher_impact =
         \<lparr> avg_savings_with_voucher = Fin 0, avg_order_value_with_voucher = Fin 0,
           avg_order_value_without_voucher = Fin 0 \<rparr>,
       delivery_fee_variance = \<lparr> fee_min = Fin 0, fee_max = Fin 0, fee_avg = Fin 0 \<rparr>,
       potential_savings = Fin 0 \<rparr>
   \<and> healthDietary getEmptyAnalytics =
       \<lparr> healthy_vs_indulgent_ratio = Fin 0,
         meal_type_distribution = \<lparr> breakfast = 0, lunch = 0, dinner = 0, snack = 0 \<rparr>,
         drink_to_food_ratio = Fin 0, healthy_food_percentage = Fin 0,
         indulgent_food_percentage = Fin 0, category_health_scores = [] \<rparr>"
  by (simp add: getEmptyAnalytics_def)

lemma empty_derived:
  "forecasted_monthly_spending (predictive getEmptyAnalytics) = Fin 0
   \<and> trend_percentage (predictive getEmptyAnalytics) = Fin 0
   \<and> predicted_next_order_days (predictive getEmptyAnalytics) = Fin 0
   \<and> estimated_annual_spending (predictive getEmptyAnalytics) = Fin 0
   \<and> advanced getEmptyAnalytics =
       \<lparr> customer_lifetime_value = Fin 0, order_efficiency_score = Fin 0,
         brand_loyalty_score = Fin 0, spontaneity_index = Fin 0, deal_dependency_ratio = Fin 0,
         churn_risk_score = Fin 0,
         exploration_vs_exploitation =
           \<lparr> exploration_percentage = Fin 0, exploitation_percentage = Fin 0 \<rparr> \<rparr>
   \<and> spending_percentile (comparative getEmptyAnalytics) = Fin 50
   \<and> value_consciousness_score (comparative getEmptyAnalytics) = Fin 0
   \<and> insights getEmptyAnalytics = []"
  by (simp add: getEmptyAnalytics_def)

text \<open>
  Claim C4. When no order passes the filter, the empty list included, \<^verbatim>\<open>analyze\<close>
  raises nothing and returns the constant \<^verbatim>\<open>getEmptyAnalytics\<close>, whatever the platform and
  the orders: every numeric field is 0 except the spending percentile, which is 50, every
  mapping is empty, the type of the spending category is \<^verbatim>\<open>N/A\<close> and there is no insight.
\<close>

theorem analyze_no_valid_order:
  assumes "filter isDelivered orders = []"
  shows "analyze p orders = Inr getEmptyAnalytics
         \<and> spending getEmptyAnalytics =
             \<lparr> total_spent = Fin 0, average_order_value = Fin 0, median_order_value = Fin 0,
               total_delivery_fees = Fin 0, total_service_fees = Fin 0,
               total_voucher_savings = Fin 0, voucher_usage_rate = Fin 0, monthly_spending = [],
               spending_category =
                 \<lparr> category_type = ''N/A'', category_description = ''No data'',
                   category_color = ''gray'' \<rparr> \<rparr>
         \<and> top_restaurants_by_orders (restaurants getEmptyAnalytics) = []
         \<and> unique_restaurants (restaurants getEmptyAnalytics) = 0
         \<and> top_restaurant_percentage (loyalty_analysis (restaurants getEmptyAnalytics)) = Fin 0
         \<and> food getEmptyAnalytics =
             \<lparr> top_food_items = [], food_categories = [], average_items_per_order = Fin 0,
               total_unique_items = 0 \<rparr>
         \<and> peak_hour (patterns getEmptyAnalytics) = Fin 0
         \<and> weekend_vs_weekday (patterns getEmptyAnalytics) =
             \<lparr> weekend_orders = 0, weekday_orders = 0, weekend_percentage = Fin 0 \<rparr>
         \<and> hourly_patterns (patterns getEmptyAnalytics) = []
         \<and> payment_method_counts (payments getEmptyAnalytics) = []
         \<and> prices getEmptyAnalytics =
             \<lparr> average_price_per_item = Fin 0,
               price_range = \<lparr> price_min = Fin 0, price_max = Fin 0 \<rparr>,
               restaurant_value_scores = [], discount_effectiveness = Fin 0,
               price_trend_over_time = [] \<rparr>
         \<and> behavior getEmptyAnalytics =
             \<lparr> order_size_distribution = \<lparr> small = 0, medium = 0, large = 0 \<rparr>,
               average_basket_size = Fin 0,
               addon_frequency = \<lparr> drinks_percentage = Fin 0, desserts_percentage = Fin 0 \<rparr>,
               reorder_patterns = \<lparr> exact_reorder_count = 0, similar_items_frequency = [] \<rparr> \<rparr>
         \<and> diversity getEmptyAnalytics =
             \<lparr> cuisine_switching_rate = Fin 0, new_restaurants_per_month = [],
               restaurant_discovery_rate = Fin 0, cuisine_preference_evolution = [],
               variety_score = Fin 0 \<rparr>
         \<and> timeAnalysis getEmptyAnalytics =
             \<lparr> order_frequency_trend = [], average_days_between_orders = Fin 0,
               spending_by_day_of_week = [], seasonal_patterns = [],
               time_gap_distribution =
                 \<lparr> same_day = 0, within_week = 0, within_month = 0, over_month = 0 \<rparr>,
               ordering_acceleration = Fin 0 \<rparr>
         \<and> costOptimization getEmptyAnalytics =
             \<lparr> fee_to_food_ratio = Fin 0, average_fee_percentage = Fin 0,
               optimal_order_value = Fin 0,
               voucher_impact =
                 \<lparr> avg_savings_with_voucher = Fin 0, avg_order_value_with_voucher = Fin 0,
                   avg_order_value_without_voucher = Fin 0 \<rparr>,
               delivery_fee_variance = \<lparr> fee_min = Fin 0, fee_max = Fin 0, fee_avg = Fin 0 \<rparr>,
               potential_savings = Fin 0 \<rparr>
         \<and> healthDietary getEmptyAnalytics =
             \<lparr> healthy_vs_indulgent_ratio = Fin 0,
               meal_type_distribution = \<lparr> breakfast = 0, lunch = 0, dinner = 0, snack = 0 \<rparr>,
               drink_to_food_ratio = Fin 0, healthy_food_percentage = Fin 0,
               indulgent_food_percentage = Fin 0, category_health_scores = [] \<rparr>
         \<and> forecasted_monthly_spending (predictive getEmptyAnalytics) = Fin 0
         \<and> trend_percentage (predictive getEmptyAnalytics) = Fin 0
         \<and> predicted_next_order_days (predictive getEmptyAnalytics) = Fin 0
         \<and> estimated_annual_spending (predictive getEmptyAnalytics) = Fin 0
         \<and> advanced getEmptyAnalytics =
             \<lparr> customer_lifetime_value = Fin 0, order_efficiency_score = Fin 0,
               brand_loyalty_score = Fin 0, spontaneity_index = Fin 0,
               deal_dependency_ratio = Fin 0, churn_risk_score = Fin 0,
               exploration_vs_exploitation =
                 \<lparr> exploration_percentage = Fin 0, exploitation_percentage = Fin 0 \<rparr> \<rparr>
         \<and> spending_percentile (comparative getEmptyAnalytics) = Fin 50
         \<and> value_consciousness_score (comparative getEmptyAnalytics) = Fin 0
         \<and> insights getEmptyAnalytics = []"
proof -
  have "analyze p orders = Inr getEmptyAnalytics"
    using assms by (simp add: analyze_def)
  then show ?thesis
    using empty_spending empty_restaurants_food empty_patterns_payments empty_prices_behavior
      empty_diversity_time empty_cost_health empty_derived
    by (simp only: simp_thms)
qed

theorem analyze_no_valid_order_witness:
  "filter isDelivered [] = [] \<and> analyze utc [] = Inr getEmptyAnalytics
   \<and> filter isDelivered [cancelled_bad_date, an_order ''Payment failed'' 250 ''2024-03-01'' []] = []
   \<and> analyze dhaka [cancelled_bad_date, an_order ''Payment failed'' 250 ''2024-03-01'' []]
       = Inr getEmptyAnalytics"
proof -
  have none: "filter isDelivered
                [cancelled_bad_date, an_order ''Payment failed'' 250 ''2024-03-01'' []] = []"
    by code_simp
  show ?thesis
    using analyze_no_valid_order [of "[]" utc]
      analyze_no_valid_order
        [OF none, of dhaka]
      none
    by simp
qed

end
